theory Spec2Isabelle
  imports Main "HOL-Library.Log_Nat"
begin

section \<open>JavaScript numbers\<close>

text \<open>
  Every count in the program is a JavaScript Number: an IEEE 754 binary64 value. The
  finite values are kept as the rationals they denote, every arithmetic result is rounded
  to the nearest representable value with ties to even (\<open>fl\<close>), and the three special
  values are constructors of their own. The two zeros are identified: among the operations
  the program uses (\<open>+\<close>, \<open>*\<close>, \<open>/\<close>, \<open>===\<close>, \<open>>\<close>, \<open>Math.round\<close>) only a division by zero
  tells them apart, and the builder divides by a total only after comparing it with zero.
\<close>

datatype jsnum = NaN | PInf | NInf | Fin rat

definition ilog2 :: "rat \<Rightarrow> int" where
  \<comment> \<open>the binary exponent of a positive rational: \<open>2 powi ilog2 x \<le> x < 2 powi (ilog2 x + 1)\<close>\<close>
  "ilog2 x = (if 1 \<le> x then bitlen \<lfloor>x\<rfloor> - 1 else - bitlen (\<lceil>1 / x\<rceil> - 1))"

definition roundTiesToEven :: "rat \<Rightarrow> int" where
  "roundTiesToEven x =
     (let f = \<lfloor>x\<rfloor>; d = x - of_int f
      in if d < 1 / 2 then f else if 1 / 2 < d then f + 1 else if even f then f else f + 1)"

definition fl :: "rat \<Rightarrow> jsnum" where
  \<comment> \<open>binary64: 53 significant bits, least exponent -1022 (subnormals below), overflow
      to an infinity from \<open>2 ^ 1024\<close> on\<close>
  "fl x =
     (if x = 0 then Fin 0
      else let e = max (ilog2 \<bar>x\<bar>) (- 1022);
               u = 2 powi (e - 52);
               y = of_int (roundTiesToEven (x / u)) * u
           in if 2 ^ 1024 \<le> \<bar>y\<bar> then (if 0 < x then PInf else NInf) else Fin y)"

fun jadd :: "jsnum \<Rightarrow> jsnum \<Rightarrow> jsnum" where
  "jadd NaN _ = NaN"
| "jadd _ NaN = NaN"
| "jadd PInf NInf = NaN"
| "jadd NInf PInf = NaN"
| "jadd PInf _ = PInf"
| "jadd _ PInf = PInf"
| "jadd NInf _ = NInf"
| "jadd _ NInf = NInf"
| "jadd (Fin a) (Fin b) = fl (a + b)"

definition jinf :: "bool \<Rightarrow> jsnum" where
  \<comment> \<open>the infinity of a sign: \<open>True\<close> is positive\<close>
  "jinf pos = (if pos then PInf else NInf)"

fun jmul :: "jsnum \<Rightarrow> jsnum \<Rightarrow> jsnum" where
  "jmul NaN _ = NaN"
| "jmul _ NaN = NaN"
| "jmul (Fin a) (Fin b) = fl (a * b)"
| "jmul (Fin a) PInf = (if a = 0 then NaN else jinf (0 < a))"
| "jmul (Fin a) NInf = (if a = 0 then NaN else jinf (a < 0))"
| "jmul PInf (Fin b) = (if b = 0 then NaN else jinf (0 < b))"
| "jmul NInf (Fin b) = (if b = 0 then NaN else jinf (b < 0))"
| "jmul PInf PInf = PInf"
| "jmul NInf NInf = PInf"
| "jmul PInf NInf = NInf"
| "jmul NInf PInf = NInf"

fun jdiv :: "jsnum \<Rightarrow> jsnum \<Rightarrow> jsnum" where
  "jdiv NaN _ = NaN"
| "jdiv _ NaN = NaN"
| "jdiv (Fin a) (Fin b) =
     (if b = 0 then (if a = 0 then NaN else jinf (0 < a)) else fl (a / b))"
| "jdiv (Fin a) PInf = Fin 0"
| "jdiv (Fin a) NInf = Fin 0"
| "jdiv PInf (Fin b) = jinf (0 \<le> b)"
| "jdiv NInf (Fin b) = jinf (b < 0)"
| "jdiv PInf PInf = NaN"
| "jdiv PInf NInf = NaN"
| "jdiv NInf PInf = NaN"
| "jdiv NInf NInf = NaN"

fun jgt :: "jsnum \<Rightarrow> jsnum \<Rightarrow> bool" where
  \<comment> \<open>\<open>a > b\<close>: false as soon as one side is NaN\<close>
  "jgt NaN _ = False"
| "jgt _ NaN = False"
| "jgt PInf PInf = False"
| "jgt PInf _ = True"
| "jgt _ PInf = False"
| "jgt NInf _ = False"
| "jgt (Fin a) NInf = True"
| "jgt (Fin a) (Fin b) = (b < a)"

fun Math_round :: "jsnum \<Rightarrow> jsnum" where
  \<comment> \<open>\<open>Math.round\<close>: the nearest integer, a half going towards \<open>+\<infinity>\<close>\<close>
  "Math_round (Fin x) = Fin (of_int \<lfloor>x + 1 / 2\<rfloor>)"
| "Math_round v = v"

definition strictEqZero :: "jsnum \<Rightarrow> bool" where
  \<comment> \<open>\<open>v === 0\<close>\<close>
  "strictEqZero v = (v = Fin 0)"


section \<open>Raw records\<close>

text \<open>
  A raw geography record is one JSON object of the census response, which carries every
  value, the counts too, as a string or \<open>null\<close>; a property may be absent (\<open>undefined\<close>,
  here \<open>None\<close>). A string is the list of its code units, each below 256.
\<close>

datatype jsval = JNull | JStr string

type_synonym row = "string \<Rightarrow> jsval option"

fun ToString :: "jsval option \<Rightarrow> string" where
  "ToString None = ''undefined''"
| "ToString (Some JNull) = ''null''"
| "ToString (Some (JStr s)) = s"

fun truthy :: "jsval option \<Rightarrow> bool" where
  "truthy (Some (JStr s)) = (s \<noteq> [])"
| "truthy _ = False"

definition StrWhiteSpaceChar :: "char \<Rightarrow> bool" where
  \<comment> \<open>the white space and line terminator code units below 256\<close>
  "StrWhiteSpaceChar c =
     (c \<in> set [CHR 0x09, CHR 0x0A, CHR 0x0B, CHR 0x0C, CHR 0x0D, CHR 0x20, CHR 0xA0])"

definition isDigit :: "char \<Rightarrow> bool" where
  "isDigit c = (48 \<le> (of_char c :: nat) \<and> (of_char c :: nat) \<le> 57)"

definition digitsValue :: "string \<Rightarrow> nat" where
  "digitsValue z = foldl (\<lambda>a c. 10 * a + (of_char c - 48)) 0 z"

definition parseInt :: "string \<Rightarrow> jsnum" where
  \<comment> \<open>\<open>parseInt(s, 10)\<close>: leading white space, an optional sign, then the longest run of
      decimal digits; no digit gives NaN. The integer read is rounded to a Number.\<close>
  "parseInt s =
     (let S = dropWhile StrWhiteSpaceChar s;
          neg = (S \<noteq> [] \<and> hd S = CHR ''-'');
          S' = (if S \<noteq> [] \<and> (hd S = CHR ''+'' \<or> hd S = CHR ''-'') then tl S else S);
          Z = takeWhile isDigit S'
      in if Z = [] then NaN
         else fl ((if neg then - 1 else 1) * of_nat (digitsValue Z)))"

definition getValue :: "row \<Rightarrow> string \<Rightarrow> jsnum" where
  \<comment> \<open>\<open>parseInt(row[key] || 0, 10)\<close>: a falsy property (absent, \<open>null\<close>, the empty string)
      is replaced by the number 0, which \<open>parseInt\<close> reads back from the string \<open>0\<close>\<close>
  "getValue r key = parseInt (if truthy (r key) then ToString (r key) else ''0'')"

section \<open>Recode helpers\<close>

fun decimal :: "nat \<Rightarrow> string" where
  \<comment> \<open>\<open>String(n)\<close> for a natural number\<close>
  "decimal n =
     (if n < 10 then [''0123456789'' ! n] else decimal (n div 10) @ [''0123456789'' ! (n mod 10)])"

definition padStart :: "nat \<Rightarrow> char \<Rightarrow> string \<Rightarrow> string" where
  "padStart len c s = replicate (len - length s) c @ s"

type_synonym counts = "(string \<times> jsnum) list"

definition ageKey :: "nat \<Rightarrow> nat \<Rightarrow> string" where
  \<comment> \<open>\<open>`B01001_${String(n + offset).padStart(3, '0')}E`\<close>\<close>
  "ageKey n offset = ''B01001_'' @ padStart 3 CHR ''0'' (decimal (n + offset)) @ ''E''"

definition recodeAge :: "row \<Rightarrow> string \<Rightarrow> counts" where
  "recodeAge r sex =
     (let offset = (if sex = ''Male'' then 0 else 24);
          v = (\<lambda>n. getValue r (ageKey n offset))
      in [(''18-24'', jadd (jadd (jadd (v 7) (v 8)) (v 9)) (v 10)),
          (''25-34'', jadd (v 11) (v 12)),
          (''35-44'', jadd (v 13) (v 14)),
          (''45-54'', jadd (v 15) (v 16)),
          (''55-64'', jadd (jadd (v 17) (v 18)) (v 19)),
          (''65+'', jadd (jadd (jadd (jadd (jadd (v 20) (v 21)) (v 22)) (v 23)) (v 24)) (v 25))])"

definition recodeRace :: "row \<Rightarrow> counts" where
  "recodeRace r =
     (let v = getValue r
      in [(''White'', v ''B03002_003E''),
          (''Black'', v ''B03002_004E''),
          (''Hispanic'', v ''B03002_012E''),
          (''Asian'', v ''B03002_006E''),
          (''Other'', jadd (jadd (jadd (v ''B03002_005E'') (v ''B03002_007E''))
                              (v ''B03002_008E'')) (v ''B03002_009E''))])"

definition recodeEducation :: "row \<Rightarrow> counts" where
  "recodeEducation r =
     (let v = getValue r
      in [(''Less Than HS'',
             jadd (jadd (jadd (jadd (jadd (jadd (jadd (jadd (jadd (jadd (jadd (jadd (jadd (jadd
               (v ''B15003_002E'') (v ''B15003_003E'')) (v ''B15003_004E''))
               (v ''B15003_005E'')) (v ''B15003_006E'')) (v ''B15003_007E''))
               (v ''B15003_008E'')) (v ''B15003_009E'')) (v ''B15003_010E''))
               (v ''B15003_011E'')) (v ''B15003_012E'')) (v ''B15003_013E''))
               (v ''B15003_014E'')) (v ''B15003_015E'')) (v ''B15003_016E'')),
          (''High School'', jadd (v ''B15003_017E'') (v ''B15003_018E'')),
          (''Some College'', jadd (jadd (v ''B15003_019E'') (v ''B15003_020E'')) (v ''B15003_021E'')),
          (''BA/BS'', v ''B15003_022E''),
          (''Post-Grad'', jadd (jadd (v ''B15003_023E'') (v ''B15003_024E'')) (v ''B15003_025E''))])"

section \<open>Geography\<close>

definition censusRegion_mapping :: "(string \<times> string list) list" where
  \<comment> \<open>\<open>RECODE_SPECS.censusRegion.mapping\<close>, in the order of its keys\<close>
  "censusRegion_mapping =
     [(''Northeast'', [''CT'', ''ME'', ''MA'', ''NH'', ''RI'', ''VT'', ''NJ'', ''NY'', ''PA'']),
      (''Midwest'', [''IL'', ''IN'', ''MI'', ''OH'', ''WI'', ''IA'', ''KS'', ''MN'', ''MO'', ''NE'',
                     ''ND'', ''SD'']),
      (''South'', [''DE'', ''FL'', ''GA'', ''MD'', ''NC'', ''SC'', ''VA'', ''WV'', ''AL'', ''KY'',
                   ''MS'', ''TN'', ''AR'', ''LA'', ''OK'', ''TX'']),
      (''West'', [''AZ'', ''CO'', ''ID'', ''MT'', ''NV'', ''NM'', ''UT'', ''WY'', ''AK'', ''CA'',
                  ''HI'', ''OR'', ''WA'']),
      (''DC'', [''DC''])]"

definition FIPS_TO_STATE :: "(string \<times> string) list" where
  "FIPS_TO_STATE =
     [(''01'', ''AL''), (''02'', ''AK''), (''04'', ''AZ''), (''05'', ''AR''), (''06'', ''CA''),
      (''08'', ''CO''), (''09'', ''CT''), (''10'', ''DE''), (''11'', ''DC''), (''12'', ''FL''),
      (''13'', ''GA''), (''15'', ''HI''), (''16'', ''ID''), (''17'', ''IL''), (''18'', ''IN''),
      (''19'', ''IA''), (''20'', ''KS''), (''21'', ''KY''), (''22'', ''LA''), (''23'', ''ME''),
      (''24'', ''MD''), (''25'', ''MA''), (''26'', ''MI''), (''27'', ''MN''), (''28'', ''MS''),
      (''29'', ''MO''), (''30'', ''MT''), (''31'', ''NE''), (''32'', ''NV''), (''33'', ''NH''),
      (''34'', ''NJ''), (''35'', ''NM''), (''36'', ''NY''), (''37'', ''NC''), (''38'', ''ND''),
      (''39'', ''OH''), (''40'', ''OK''), (''41'', ''OR''), (''42'', ''PA''), (''44'', ''RI''),
      (''45'', ''SC''), (''46'', ''SD''), (''47'', ''TN''), (''48'', ''TX''), (''49'', ''UT''),
      (''50'', ''VT''), (''51'', ''VA''), (''53'', ''WA''), (''54'', ''WV''), (''55'', ''WI''),
      (''56'', ''WY''), (''72'', ''PR'')]"

text \<open>
  \<open>FIPS_TO_STATE\<close> is an object literal, so a lookup that misses the table goes on to
  \<open>Object.prototype\<close>: under one of the names below it finds a function (or, for
  \<open>__proto__\<close>, the prototype object), which is truthy and is handed on as the state.
\<close>

definition Object_prototype_names :: "string list" where
  "Object_prototype_names =
     [''constructor'', ''__defineGetter__'', ''__defineSetter__'', ''hasOwnProperty'',
      ''__lookupGetter__'', ''__lookupSetter__'', ''isPrototypeOf'', ''propertyIsEnumerable'',
      ''toString'', ''valueOf'', ''__proto__'', ''toLocaleString'']"

datatype jsstate = Abbrev string | Inherited string

datatype error = UnknownFIPS string | UnknownState jsstate

fun stateText :: "jsstate \<Rightarrow> string" where
  \<comment> \<open>the state inside a template literal; an inherited member as Node.js prints it\<close>
  "stateText (Abbrev s) = s"
| "stateText (Inherited k) =
     (if k = ''__proto__'' then ''[object Object]''
      else ''function '' @ (if k = ''constructor'' then ''Object'' else k) @ ''() { [native code] }'')"

definition fipsToState :: "jsval option \<Rightarrow> error + jsstate" where
  "fipsToState fips =
     (let k = ToString fips
      in case map_of FIPS_TO_STATE k of
           Some s \<Rightarrow> Inr (Abbrev s)
         | None \<Rightarrow> if k \<in> set Object_prototype_names then Inr (Inherited k)
                   else Inl (UnknownFIPS k))"

definition parseDistrict :: "row \<Rightarrow> error + (jsstate \<times> string \<times> jsval option)" where
  \<comment> \<open>the returned object \<open>{ state, cd, cdNumber }\<close> as a triple\<close>
  "parseDistrict r =
     (let stateFips = r ''state'';
          cdNumber = r ''congressional district''
      in case fipsToState stateFips of
           Inl e \<Rightarrow> Inl e
         | Inr state \<Rightarrow>
             let cdFormatted = (if cdNumber = Some (JStr ''00'') then Some (JStr ''00'') else cdNumber)
             in Inr (state, stateText state @ ''-'' @ ToString cdFormatted, cdFormatted))"

fun Array_includes :: "string list \<Rightarrow> jsstate \<Rightarrow> bool" where
  \<comment> \<open>\<open>states.includes(stateCode)\<close> on an array of strings\<close>
  "Array_includes states (Abbrev s) = (s \<in> set states)"
| "Array_includes states (Inherited k) = False"

fun getRegionLoop :: "(string \<times> string list) list \<Rightarrow> jsstate \<Rightarrow> error + string" where
  "getRegionLoop [] stateCode = Inl (UnknownState stateCode)"
| "getRegionLoop ((region, states) # rest) stateCode =
     (if Array_includes states stateCode then Inr region else getRegionLoop rest stateCode)"

definition getRegion :: "jsstate \<Rightarrow> error + string" where
  "getRegion stateCode = getRegionLoop censusRegion_mapping stateCode"

section \<open>The cross-tabulation builder\<close>

record cell =
  year :: int
  state :: string
  cd :: string
  ageGroup :: string
  sex :: string
  raceEth :: string
  education :: string
  censusRegion :: string
  population :: jsnum

definition sumValues :: "counts \<Rightarrow> jsnum" where
  \<comment> \<open>\<open>Object.values(counts).reduce((a, b) => a + b, 0)\<close>\<close>
  "sumValues c = foldl jadd (Fin 0) (map snd c)"

definition cellPopulation :: "jsnum \<Rightarrow> jsnum \<Rightarrow> jsnum \<Rightarrow> jsnum \<Rightarrow> jsnum \<Rightarrow> jsnum \<Rightarrow> jsnum" where
  \<comment> \<open>the value of \<open>population\<close>: the three proportions, the product from the left, rounded\<close>
  "cellPopulation totalAge ageCount totalRace raceCount totalEdu eduCount =
     (let ageProp = jdiv ageCount totalAge;
          raceProp = jdiv raceCount totalRace;
          eduProp = jdiv eduCount totalEdu
      in Math_round (jmul (jmul (jmul totalAge ageProp) raceProp) eduProp))"

definition crossTabCell ::
  "int \<Rightarrow> string \<Rightarrow> string \<Rightarrow> string \<Rightarrow> string \<Rightarrow> counts \<Rightarrow> counts \<Rightarrow> counts \<Rightarrow>
   string \<times> jsnum \<Rightarrow> string \<times> jsnum \<Rightarrow> string \<times> jsnum \<Rightarrow> cell list" where
  \<comment> \<open>the body of the innermost loop: the cells it pushes, none or one\<close>
  "crossTabCell yr st district region sx ageCounts raceCounts educationCounts a rc e =
     (let totalAge = sumValues ageCounts;
          totalRace = sumValues raceCounts;
          totalEdu = sumValues educationCounts
      in if strictEqZero totalAge \<or> strictEqZero totalRace \<or> strictEqZero totalEdu then []
         else
           let pop = cellPopulation totalAge (snd a) totalRace (snd rc) totalEdu (snd e)
           in if jgt pop (Fin 0)
              then [\<lparr>year = yr, state = st, cd = district, ageGroup = fst a, sex = sx,
                     raceEth = fst rc, education = fst e, censusRegion = region,
                     population = pop\<rparr>]
              else [])"

definition sexCells ::
  "int \<Rightarrow> string \<Rightarrow> string \<Rightarrow> string \<Rightarrow> counts \<Rightarrow> counts \<Rightarrow> row \<Rightarrow> string \<Rightarrow> cell list" where
  \<comment> \<open>one turn of the loop over the sexes: the three nested loops over the entries\<close>
  "sexCells yr st district region raceCounts educationCounts r sx =
     (let ageCounts = recodeAge r sx
      in concat (map (\<lambda>a.
           concat (map (\<lambda>rc.
             concat (map (\<lambda>e.
               crossTabCell yr st district region sx ageCounts raceCounts educationCounts a rc e)
               educationCounts))
             raceCounts))
           ageCounts))"

definition processRow :: "int \<Rightarrow> row \<Rightarrow> error + cell list" where
  \<comment> \<open>the body of the \<open>try\<close> block: the error thrown, or the cells pushed for the record\<close>
  "processRow yr r =
     (case parseDistrict r of
        Inl err \<Rightarrow> Inl err
      | Inr (st, district, cdNumber) \<Rightarrow>
          (case getRegion st of
             Inl err \<Rightarrow> Inl err
           | Inr region \<Rightarrow>
               let raceCounts = recodeRace r;
                   educationCounts = recodeEducation r
               in Inr (concat (map (sexCells yr (stateText st) district region
                                      raceCounts educationCounts r)
                                [''Female'', ''Male'']))))"

fun buildLoop :: "int \<Rightarrow> row list \<Rightarrow> cell list \<times> nat \<Rightarrow> cell list \<times> nat" where
  \<comment> \<open>the loop over \<open>censusData\<close>, on the pair \<open>(cells, skippedDistricts)\<close>\<close>
  "buildLoop yr [] (cells, skippedDistricts) = (cells, skippedDistricts)"
| "buildLoop yr (r # rest) (cells, skippedDistricts) =
     (case processRow yr r of
        Inl err \<Rightarrow> buildLoop yr rest (cells, skippedDistricts + 1)
      | Inr pushed \<Rightarrow> buildLoop yr rest (cells @ pushed, skippedDistricts))"

section \<open>The table store\<close>

type_synonym cellKey = "int \<times> string \<times> string \<times> string \<times> string \<times> string \<times> string \<times> string"

definition keyOf :: "cell \<Rightarrow> cellKey" where
  \<comment> \<open>the unique constraint of the table, as the README gives it\<close>
  "keyOf c = (year c, state c, cd c, ageGroup c, sex c, raceEth c, education c, censusRegion c)"

definition createMany :: "cell list \<Rightarrow> cell list \<Rightarrow> cell list" where
  \<comment> \<open>Modelled from the spec: the Prisma client's \<open>createMany\<close> with \<open>skipDuplicates\<close> is not
      part of the sources; the store is a keyed table whose bulk insert tolerates identity-key
      collisions, so a row whose key is already stored is left out.\<close>
  "createMany table batch =
     foldl (\<lambda>t c. if keyOf c \<in> keyOf ` set t then t else t @ [c]) table batch"

definition batchSize :: nat where
  "batchSize = 5000"

definition slice :: "'a list \<Rightarrow> nat \<Rightarrow> nat \<Rightarrow> 'a list" where
  \<comment> \<open>\<open>xs.slice(i, j)\<close> for indices that are not negative\<close>
  "slice xs i j = take (j - i) (drop i xs)"

function storeLoop :: "cell list \<Rightarrow> nat \<Rightarrow> nat \<Rightarrow> cell list \<Rightarrow> nat \<times> cell list" where
  \<comment> \<open>the loop over the batches, on \<open>i\<close>, \<open>storedCount\<close> and the table\<close>
  "storeLoop cells i storedCount table =
     (if i < length cells
      then let batch = slice cells i (i + batchSize)
           in storeLoop cells (i + batchSize) (storedCount + length batch) (createMany table batch)
      else (storedCount, table))"
  by pat_completeness auto
termination
  by (relation "measure (\<lambda>(cells, i, storedCount, table). length cells - i)")
     (auto simp: batchSize_def)

declare storeLoop.simps [simp del]

text \<open>
  The result object. Its \<open>year\<close> is the field \<open>resultYear\<close> and its \<open>dimensions\<close> block is
  \<open>dims\<close>, with the fields \<open>ageGroups\<close>, \<open>sexes\<close>, \<open>raceEth\<close>, \<open>education\<close> and
  \<open>censusRegions\<close> under the prefix \<open>dim_\<close>: a cell has fields of the same names already.
\<close>

record dimensions =
  dim_ageGroups :: nat
  dim_sexes :: nat
  dim_raceEth :: nat
  dim_education :: nat
  dim_censusRegions :: nat

record buildResult =
  success :: bool
  resultYear :: int
  districtsProcessed :: int
  districtsSkipped :: int
  cellsGenerated :: int
  cellsStored :: int
  dims :: dimensions

definition ageGroup_levels :: "string list" where
  "ageGroup_levels = [''18-24'', ''25-34'', ''35-44'', ''45-54'', ''55-64'', ''65+'']"

definition sex_levels :: "string list" where
  "sex_levels = [''Female'', ''Male'']"

definition raceEth_levels :: "string list" where
  "raceEth_levels = [''White'', ''Black'', ''Hispanic'', ''Asian'', ''Other'']"

definition education_levels :: "string list" where
  "education_levels = [''Less Than HS'', ''High School'', ''Some College'', ''BA/BS'', ''Post-Grad'']"

definition censusRegion_levels :: "string list" where
  "censusRegion_levels = [''Northeast'', ''Midwest'', ''South'', ''West'', ''DC'']"

definition generateCells :: "int \<Rightarrow> row list \<Rightarrow> cell list \<times> nat" where
  \<comment> \<open>the first half of \<open>buildPoststratTable\<close>: the cells and the number of skipped records\<close>
  "generateCells yr censusData = buildLoop yr censusData ([], 0)"

definition buildPoststratTable :: "int \<Rightarrow> row list \<Rightarrow> cell list \<Rightarrow> buildResult \<times> cell list" where
  \<comment> \<open>the result object, and the table after the bulk writes\<close>
  "buildPoststratTable yr censusData table =
     (let (cells, skippedDistricts) = generateCells yr censusData;
          (storedCount, table') = storeLoop cells 0 0 table
      in (\<lparr>success = True,
           resultYear = yr,
           districtsProcessed = int (length censusData) - int skippedDistricts,
           districtsSkipped = int skippedDistricts,
           cellsGenerated = int (length cells),
           cellsStored = int storedCount,
           dims = \<lparr>dim_ageGroups = length ageGroup_levels,
                    dim_sexes = length sex_levels,
                    dim_raceEth = length raceEth_levels,
                    dim_education = length education_levels,
                    dim_censusRegions = length censusRegion_levels\<rparr>\<rparr>,
          table'))"

section \<open>The specification's cell population\<close>

fun spec_round :: "jsnum \<Rightarrow> jsnum" where
  \<comment> \<open>rounding to the nearest integer, a half going away from zero\<close>
  "spec_round (Fin x) = Fin (of_int ((if x < 0 then - 1 else 1) * \<lfloor>\<bar>x\<bar> + 1 / 2\<rfloor>))"
| "spec_round v = v"

definition spec_population :: "jsnum \<Rightarrow> jsnum \<Rightarrow> jsnum \<Rightarrow> jsnum \<Rightarrow> jsnum \<Rightarrow> jsnum \<Rightarrow> jsnum" where
  \<comment> \<open>\<open>round(totalAge \<times> (ageCount/totalAge) \<times> (raceCount/totalRace) \<times> (eduCount/totalEdu))\<close>,
      the ratios and products being floating-point, multiplied from the left\<close>
  "spec_population totalAge ageCount totalRace raceCount totalEdu eduCount =
     spec_round (jmul (jmul (jmul totalAge (jdiv ageCount totalAge)) (jdiv raceCount totalRace))
                      (jdiv eduCount totalEdu))"

section \<open>An example record\<close>

definition tx32 :: row where
  \<comment> \<open>the synthetic district of the end-to-end example: state 48, district 32\<close>
  "tx32 = map_of
     ([(''NAME'', JStr ''Congressional District 32, Texas''),
       (''state'', JStr ''48''), (''congressional district'', JStr ''32''),
       (''B01001_007E'', JStr ''1000''), (''B03002_003E'', JStr ''2000''),
       (''B15003_022E'', JStr ''1500'')] @
      map (\<lambda>k. (k, JStr ''0''))
        [''B01001_008E'', ''B01001_009E'', ''B01001_010E'', ''B01001_011E'', ''B01001_012E'',
         ''B01001_013E'', ''B01001_014E'', ''B01001_015E'', ''B01001_016E'', ''B01001_017E'',
         ''B01001_018E'', ''B01001_019E'', ''B01001_020E'', ''B01001_021E'', ''B01001_022E'',
         ''B01001_023E'', ''B01001_024E'', ''B01001_025E'',
         ''B01001_031E'', ''B01001_032E'', ''B01001_033E'', ''B01001_034E'', ''B01001_035E'',
         ''B01001_036E'', ''B01001_037E'', ''B01001_038E'', ''B01001_039E'', ''B01001_040E'',
         ''B01001_041E'', ''B01001_042E'', ''B01001_043E'', ''B01001_044E'', ''B01001_045E'',
         ''B01001_046E'', ''B01001_047E'', ''B01001_048E'', ''B01001_049E'',
         ''B03002_004E'', ''B03002_005E'', ''B03002_006E'', ''B03002_007E'', ''B03002_008E'',
         ''B03002_009E'', ''B03002_012E'',
         ''B15003_002E'', ''B15003_003E'', ''B15003_004E'', ''B15003_005E'', ''B15003_006E'',
         ''B15003_007E'', ''B15003_008E'', ''B15003_009E'', ''B15003_010E'', ''B15003_011E'',
         ''B15003_012E'', ''B15003_013E'', ''B15003_014E'', ''B15003_015E'', ''B15003_016E'',
         ''B15003_017E'', ''B15003_018E'', ''B15003_019E'', ''B15003_020E'', ''B15003_021E'',
         ''B15003_023E'', ''B15003_024E'', ''B15003_025E''])"

definition tx32_malformed :: row where
  \<comment> \<open>the example record with a White alone count that is not a number\<close>
  "tx32_malformed = tx32(''B03002_003E'' \<mapsto> JStr ''N/A'')"

definition tx33 :: row where
  \<comment> \<open>the same counts for the neighbouring district\<close>
  "tx33 = tx32(''congressional district'' \<mapsto> JStr ''33'')"

section \<open>Notions the claims use\<close>

definition rawGeography :: "row \<Rightarrow> string \<times> string" where
  \<comment> \<open>the (state, congressional district) pair of a raw record, as \<open>parseDistrict\<close> reads it\<close>
  "rawGeography r = (ToString (r ''state''), ToString (r ''congressional district''))"

definition fipsOf :: "string \<Rightarrow> string" where
  \<comment> \<open>the first FIPS code that the table maps to the abbreviation\<close>
  "fipsOf s = (case find (\<lambda>p. snd p = s) FIPS_TO_STATE of Some p \<Rightarrow> fst p | None \<Rightarrow> [])"

definition keyGeography :: "cellKey \<Rightarrow> string \<times> string" where
  \<comment> \<open>the raw geography that a cell key was made from\<close>
  "keyGeography k =
     (case k of (yr, st, district, rest) \<Rightarrow> (fipsOf st, drop (length st + 1) district))"

definition regionsOf :: "string \<Rightarrow> string list" where
  \<comment> \<open>the regions whose state set holds the abbreviation\<close>
  "regionsOf s = map fst (filter (\<lambda>rg. s \<in> set (snd rg)) censusRegion_mapping)"

definition maleAgeFields :: "string list" where
  \<comment> \<open>\<open>B01001_007E\<close> through \<open>B01001_025E\<close>\<close>
  "maleAgeFields =
     [''B01001_007E'', ''B01001_008E'', ''B01001_009E'', ''B01001_010E'', ''B01001_011E'',
     ''B01001_012E'', ''B01001_013E'', ''B01001_014E'', ''B01001_015E'', ''B01001_016E'',
     ''B01001_017E'', ''B01001_018E'', ''B01001_019E'', ''B01001_020E'', ''B01001_021E'',
     ''B01001_022E'', ''B01001_023E'', ''B01001_024E'', ''B01001_025E'']"

definition femaleAgeFields :: "string list" where
  \<comment> \<open>\<open>B01001_031E\<close> through \<open>B01001_049E\<close>\<close>
  "femaleAgeFields =
     [''B01001_031E'', ''B01001_032E'', ''B01001_033E'', ''B01001_034E'', ''B01001_035E'',
     ''B01001_036E'', ''B01001_037E'', ''B01001_038E'', ''B01001_039E'', ''B01001_040E'',
     ''B01001_041E'', ''B01001_042E'', ''B01001_043E'', ''B01001_044E'', ''B01001_045E'',
     ''B01001_046E'', ''B01001_047E'', ''B01001_048E'', ''B01001_049E'']"

definition ageFields :: "string \<Rightarrow> string list" where
  \<comment> \<open>the raw age fields attributed to a sex\<close>
  "ageFields sx = (if sx = ''Male'' then maleAgeFields else femaleAgeFields)"

definition ageBuckets :: "string \<Rightarrow> (string \<times> string list) list" where
  \<comment> \<open>the raw fields that \<open>recodeAge\<close> adds up under each age group, in its order\<close>
  "ageBuckets sx =
     (if sx = ''Male''
      then [(''18-24'', [''B01001_007E'', ''B01001_008E'', ''B01001_009E'', ''B01001_010E'']),
            (''25-34'', [''B01001_011E'', ''B01001_012E'']),
            (''35-44'', [''B01001_013E'', ''B01001_014E'']),
            (''45-54'', [''B01001_015E'', ''B01001_016E'']),
            (''55-64'', [''B01001_017E'', ''B01001_018E'', ''B01001_019E'']),
            (''65+'', [''B01001_020E'', ''B01001_021E'', ''B01001_022E'', ''B01001_023E'', ''B01001_024E'',
                       ''B01001_025E''])]
      else [(''18-24'', [''B01001_031E'', ''B01001_032E'', ''B01001_033E'', ''B01001_034E'']),
            (''25-34'', [''B01001_035E'', ''B01001_036E'']),
            (''35-44'', [''B01001_037E'', ''B01001_038E'']),
            (''45-54'', [''B01001_039E'', ''B01001_040E'']),
            (''55-64'', [''B01001_041E'', ''B01001_042E'', ''B01001_043E'']),
            (''65+'', [''B01001_044E'', ''B01001_045E'', ''B01001_046E'', ''B01001_047E'', ''B01001_048E'',
                       ''B01001_049E''])])"

definition educationFields :: "string list" where
  \<comment> \<open>\<open>B15003_002E\<close> through \<open>B15003_025E\<close>\<close>
  "educationFields =
     [''B15003_002E'', ''B15003_003E'', ''B15003_004E'', ''B15003_005E'', ''B15003_006E'',
     ''B15003_007E'', ''B15003_008E'', ''B15003_009E'', ''B15003_010E'', ''B15003_011E'',
     ''B15003_012E'', ''B15003_013E'', ''B15003_014E'', ''B15003_015E'', ''B15003_016E'',
     ''B15003_017E'', ''B15003_018E'', ''B15003_019E'', ''B15003_020E'', ''B15003_021E'',
     ''B15003_022E'', ''B15003_023E'', ''B15003_024E'', ''B15003_025E'']"

definition educationBuckets :: "(string \<times> string list) list" where
  \<comment> \<open>the raw fields that \<open>recodeEducation\<close> adds up under each label, in its order\<close>
  "educationBuckets =
     [(''Less Than HS'', [''B15003_002E'', ''B15003_003E'', ''B15003_004E'', ''B15003_005E'', ''B15003_006E'',
                          ''B15003_007E'', ''B15003_008E'', ''B15003_009E'', ''B15003_010E'', ''B15003_011E'',
                          ''B15003_012E'', ''B15003_013E'', ''B15003_014E'', ''B15003_015E'', ''B15003_016E'']),
      (''High School'', [''B15003_017E'', ''B15003_018E'']),
      (''Some College'', [''B15003_019E'', ''B15003_020E'', ''B15003_021E'']),
      (''BA/BS'', [''B15003_022E'']),
      (''Post-Grad'', [''B15003_023E'', ''B15003_024E'', ''B15003_025E''])]"

fun jsum :: "jsnum list \<Rightarrow> jsnum" where
  \<comment> \<open>\<open>v1 + v2 + ... + vn\<close>, added from the left\<close>
  "jsum [] = Fin 0"
| "jsum (v # vs) = foldl jadd v vs"

definition intOf :: "jsnum \<Rightarrow> int" where
  "intOf v = (case v of Fin x \<Rightarrow> \<lfloor>x\<rfloor> | _ \<Rightarrow> 0)"

definition isInt :: "jsnum \<Rightarrow> bool" where
  \<comment> \<open>a finite Number with an integer value\<close>
  "isInt v = (v = Fin (of_int (intOf v)))"

definition geographyError :: "row \<Rightarrow> error option" where
  \<comment> \<open>the error that \<open>parseDistrict\<close> or \<open>getRegion\<close> throws for the record, if any\<close>
  "geographyError r =
     (case parseDistrict r of
        Inl err \<Rightarrow> Some err
      | Inr (st, district, cdNumber) \<Rightarrow>
          (case getRegion st of Inl err \<Rightarrow> Some err | Inr region \<Rightarrow> None))"

section \<open>Arithmetic on counts is exact\<close>

lemma roundTiesToEven_of_int: "roundTiesToEven (of_int n) = n"
  by (simp add: roundTiesToEven_def)

lemma bitlen_le_53: assumes "n < 2 ^ 53" shows "bitlen n \<le> 53"
proof -
  have "nat n < 2 ^ 53" using assms by (simp add: nat_less_iff)
  then have "floorlog 2 (nat n) \<le> 53" by (simp add: floorlog_le_iff)
  then show ?thesis by (simp add: bitlen_def)
qed

lemma fl_of_int:
  assumes "\<bar>n\<bar> < 2 ^ 53"
  shows "fl (of_int n) = Fin (of_int n)"
proof (cases "n = 0")
  case True
  then show ?thesis by (simp add: fl_def)
next
  case False
  define x :: rat where "x = of_int n"
  define e where "e = max (ilog2 \<bar>x\<bar>) (- 1022)"
  define k where "k = nat (52 - e)"
  have ax: "\<bar>x\<bar> = of_int \<bar>n\<bar>" by (simp add: x_def)
  have "1 \<le> \<bar>n\<bar>" using False by simp
  then have ge1: "1 \<le> \<bar>x\<bar>" unfolding ax by (simp only: of_int_1_le_iff)
  have fx: "\<lfloor>\<bar>x\<bar>\<rfloor> = \<bar>n\<bar>" unfolding ax by (rule floor_of_int)
  have "ilog2 \<bar>x\<bar> = bitlen \<bar>n\<bar> - 1"
    by (simp only: ilog2_def ge1 if_True fx)
  moreover have "bitlen \<bar>n\<bar> \<le> 53" using assms by (rule bitlen_le_53)
  ultimately have e52: "e \<le> 52" by (simp add: e_def)
  then have ek: "e - 52 = - int k" by (simp add: k_def)
  have u: "(2::rat) powi (e - 52) = 1 / 2 ^ k"
    unfolding ek by (simp add: power_int_minus divide_inverse)
  have q: "x / (2 powi (e - 52)) = of_int (n * 2 ^ k)"
    unfolding u by (simp add: x_def)
  have y: "of_int (roundTiesToEven (x / (2 powi (e - 52)))) * (2::rat) powi (e - 52) = x"
    unfolding q roundTiesToEven_of_int unfolding u by (simp add: x_def)
  have "(2::int) ^ 53 \<le> 2 ^ 1024" by (rule power_increasing) simp_all
  with assms have "\<bar>n\<bar> < 2 ^ 1024" by (rule less_le_trans)
  then have "(of_int \<bar>n\<bar> :: rat) < of_int (2 ^ 1024)" by (simp only: of_int_less_iff)
  then have "\<bar>x\<bar> < 2 ^ 1024" unfolding ax by (simp only: of_int_power of_int_numeral)
  then have small: "\<not> 2 ^ 1024 \<le> \<bar>x\<bar>" by (simp only: not_le)
  have "x \<noteq> 0" using False by (simp add: x_def)
  then have "fl x = Fin x"
    unfolding fl_def Let_def e_def[symmetric] y by (simp only: small if_False)
  then show ?thesis by (simp add: x_def)
qed

lemma fl_numeral: "numeral k < (2::int) ^ 53 \<Longrightarrow> fl (numeral k) = Fin (numeral k)"
  using fl_of_int[of "numeral k"] by simp

section \<open>Rounding\<close>

lemma round_nonneg: "0 \<le> x \<Longrightarrow> spec_round (Fin x) = Math_round (Fin x)"
  by simp

lemma round_neg_Math: assumes "x < 0" shows "\<not> jgt (Math_round (Fin x)) (Fin 0)"
proof -
  have "x + 1 / 2 < 1" using assms by simp
  then have "\<lfloor>x + 1 / 2\<rfloor> < 1" by (simp only: floor_less_iff of_int_1)
  then show ?thesis by simp
qed

lemma round_neg_spec: assumes "x < 0" shows "\<not> jgt (spec_round (Fin x)) (Fin 0)"
proof -
  have "0 \<le> \<bar>x\<bar> + 1 / 2" by simp
  then have "0 \<le> \<lfloor>\<bar>x\<bar> + 1 / 2\<rfloor>" by (simp only: zero_le_floor)
  then show ?thesis using assms by simp
qed

lemma round_pos: "jgt (Math_round v) (Fin 0) = jgt (spec_round v) (Fin 0)"
proof (cases v)
  case (Fin x)
  show ?thesis
  proof (cases "x < 0")
    case True
    then show ?thesis unfolding Fin using round_neg_Math round_neg_spec by blast
  next
    case False
    then have "spec_round (Fin x) = Math_round (Fin x)" by (intro round_nonneg) simp
    then show ?thesis unfolding Fin by (simp only:)
  qed
qed simp_all

lemma round_eq: assumes "jgt (Math_round v) (Fin 0)" shows "Math_round v = spec_round v"
proof (cases v)
  case (Fin x)
  have "\<not> x < 0" using assms round_neg_Math unfolding Fin by blast
  then have "spec_round (Fin x) = Math_round (Fin x)" by (intro round_nonneg) simp
  then show ?thesis unfolding Fin by (simp only:)
qed simp_all

lemma pushed_eq:
  "(if jgt (Math_round v) (Fin 0)
    then [\<lparr>year = yr, state = st, cd = district, ageGroup = a, sex = sx, raceEth = rc,
           education = e, censusRegion = region, population = Math_round v\<rparr>]
    else []) =
   (if jgt (spec_round v) (Fin 0)
    then [\<lparr>year = yr, state = st, cd = district, ageGroup = a, sex = sx, raceEth = rc,
           education = e, censusRegion = region, population = spec_round v\<rparr>]
    else [])"
proof (cases "jgt (Math_round v) (Fin 0)")
  case True
  then show ?thesis using round_eq[OF True] round_pos[of v] by simp
next
  case False
  then show ?thesis using round_pos[of v] by simp
qed

section \<open>The recodes, key by key\<close>

lemma fl_zero: "fl 0 = Fin 0"
  by (simp add: fl_def)

lemma padStart_3: "padStart 3 c [a] = [c, c, a]" "padStart 3 c [a, b] = [c, a, b]"
  by (simp_all add: padStart_def numeral_2_eq_2)

lemma ageKey_Male:
  "ageKey 7 0 = ''B01001_007E'' \<and>
   ageKey 8 0 = ''B01001_008E'' \<and>
   ageKey 9 0 = ''B01001_009E'' \<and>
   ageKey 10 0 = ''B01001_010E'' \<and>
   ageKey 11 0 = ''B01001_011E'' \<and>
   ageKey 12 0 = ''B01001_012E'' \<and>
   ageKey 13 0 = ''B01001_013E'' \<and>
   ageKey 14 0 = ''B01001_014E'' \<and>
   ageKey 15 0 = ''B01001_015E'' \<and>
   ageKey 16 0 = ''B01001_016E'' \<and>
   ageKey 17 0 = ''B01001_017E'' \<and>
   ageKey 18 0 = ''B01001_018E'' \<and>
   ageKey 19 0 = ''B01001_019E'' \<and>
   ageKey 20 0 = ''B01001_020E'' \<and>
   ageKey 21 0 = ''B01001_021E'' \<and>
   ageKey 22 0 = ''B01001_022E'' \<and>
   ageKey 23 0 = ''B01001_023E'' \<and>
   ageKey 24 0 = ''B01001_024E'' \<and>
   ageKey 25 0 = ''B01001_025E''"
  by (simp add: ageKey_def padStart_3)

lemma ageKey_Female:
  "ageKey 7 24 = ''B01001_031E'' \<and>
   ageKey 8 24 = ''B01001_032E'' \<and>
   ageKey 9 24 = ''B01001_033E'' \<and>
   ageKey 10 24 = ''B01001_034E'' \<and>
   ageKey 11 24 = ''B01001_035E'' \<and>
   ageKey 12 24 = ''B01001_036E'' \<and>
   ageKey 13 24 = ''B01001_037E'' \<and>
   ageKey 14 24 = ''B01001_038E'' \<and>
   ageKey 15 24 = ''B01001_039E'' \<and>
   ageKey 16 24 = ''B01001_040E'' \<and>
   ageKey 17 24 = ''B01001_041E'' \<and>
   ageKey 18 24 = ''B01001_042E'' \<and>
   ageKey 19 24 = ''B01001_043E'' \<and>
   ageKey 20 24 = ''B01001_044E'' \<and>
   ageKey 21 24 = ''B01001_045E'' \<and>
   ageKey 22 24 = ''B01001_046E'' \<and>
   ageKey 23 24 = ''B01001_047E'' \<and>
   ageKey 24 24 = ''B01001_048E'' \<and>
   ageKey 25 24 = ''B01001_049E''"
  by (simp add: ageKey_def padStart_3)

lemma recodeAge_Male:
  "recodeAge r ''Male'' =
     [(''18-24'', (jadd (jadd (jadd (getValue r ''B01001_007E'') (getValue r ''B01001_008E'')) (getValue r ''B01001_009E'')) (getValue r ''B01001_010E''))),
      (''25-34'', (jadd (getValue r ''B01001_011E'') (getValue r ''B01001_012E''))),
      (''35-44'', (jadd (getValue r ''B01001_013E'') (getValue r ''B01001_014E''))),
      (''45-54'', (jadd (getValue r ''B01001_015E'') (getValue r ''B01001_016E''))),
      (''55-64'', (jadd (jadd (getValue r ''B01001_017E'') (getValue r ''B01001_018E'')) (getValue r ''B01001_019E''))),
      (''65+'', (jadd (jadd (jadd (jadd (jadd (getValue r ''B01001_020E'') (getValue r ''B01001_021E'')) (getValue r ''B01001_022E'')) (getValue r ''B01001_023E'')) (getValue r ''B01001_024E'')) (getValue r ''B01001_025E'')))]"
  by (simp add: recodeAge_def ageKey_Male)

lemma recodeAge_Female:
  "recodeAge r ''Female'' =
     [(''18-24'', (jadd (jadd (jadd (getValue r ''B01001_031E'') (getValue r ''B01001_032E'')) (getValue r ''B01001_033E'')) (getValue r ''B01001_034E''))),
      (''25-34'', (jadd (getValue r ''B01001_035E'') (getValue r ''B01001_036E''))),
      (''35-44'', (jadd (getValue r ''B01001_037E'') (getValue r ''B01001_038E''))),
      (''45-54'', (jadd (getValue r ''B01001_039E'') (getValue r ''B01001_040E''))),
      (''55-64'', (jadd (jadd (getValue r ''B01001_041E'') (getValue r ''B01001_042E'')) (getValue r ''B01001_043E''))),
      (''65+'', (jadd (jadd (jadd (jadd (jadd (getValue r ''B01001_044E'') (getValue r ''B01001_045E'')) (getValue r ''B01001_046E'')) (getValue r ''B01001_047E'')) (getValue r ''B01001_048E'')) (getValue r ''B01001_049E'')))]"
  by (simp add: recodeAge_def ageKey_Female)

lemma tx32_fields:
  "tx32 ''B01001_007E'' = Some (JStr ''1000'') \<and>
   tx32 ''B01001_008E'' = Some (JStr ''0'') \<and>
   tx32 ''B01001_009E'' = Some (JStr ''0'') \<and>
   tx32 ''B01001_010E'' = Some (JStr ''0'') \<and>
   tx32 ''B01001_011E'' = Some (JStr ''0'') \<and>
   tx32 ''B01001_012E'' = Some (JStr ''0'') \<and>
   tx32 ''B01001_013E'' = Some (JStr ''0'') \<and>
   tx32 ''B01001_014E'' = Some (JStr ''0'') \<and>
   tx32 ''B01001_015E'' = Some (JStr ''0'') \<and>
   tx32 ''B01001_016E'' = Some (JStr ''0'') \<and>
   tx32 ''B01001_017E'' = Some (JStr ''0'') \<and>
   tx32 ''B01001_018E'' = Some (JStr ''0'') \<and>
   tx32 ''B01001_019E'' = Some (JStr ''0'') \<and>
   tx32 ''B01001_020E'' = Some (JStr ''0'') \<and>
   tx32 ''B01001_021E'' = Some (JStr ''0'') \<and>
   tx32 ''B01001_022E'' = Some (JStr ''0'') \<and>
   tx32 ''B01001_023E'' = Some (JStr ''0'') \<and>
   tx32 ''B01001_024E'' = Some (JStr ''0'') \<and>
   tx32 ''B01001_025E'' = Some (JStr ''0'') \<and>
   tx32 ''B01001_031E'' = Some (JStr ''0'') \<and>
   tx32 ''B01001_032E'' = Some (JStr ''0'') \<and>
   tx32 ''B01001_033E'' = Some (JStr ''0'') \<and>
   tx32 ''B01001_034E'' = Some (JStr ''0'') \<and>
   tx32 ''B01001_035E'' = Some (JStr ''0'') \<and>
   tx32 ''B01001_036E'' = Some (JStr ''0'') \<and>
   tx32 ''B01001_037E'' = Some (JStr ''0'') \<and>
   tx32 ''B01001_038E'' = Some (JStr ''0'') \<and>
   tx32 ''B01001_039E'' = Some (JStr ''0'') \<and>
   tx32 ''B01001_040E'' = Some (JStr ''0'') \<and>
   tx32 ''B01001_041E'' = Some (JStr ''0'') \<and>
   tx32 ''B01001_042E'' = Some (JStr ''0'') \<and>
   tx32 ''B01001_043E'' = Some (JStr ''0'') \<and>
   tx32 ''B01001_044E'' = Some (JStr ''0'') \<and>
   tx32 ''B01001_045E'' = Some (JStr ''0'') \<and>
   tx32 ''B01001_046E'' = Some (JStr ''0'') \<and>
   tx32 ''B01001_047E'' = Some (JStr ''0'') \<and>
   tx32 ''B01001_048E'' = Some (JStr ''0'') \<and>
   tx32 ''B01001_049E'' = Some (JStr ''0'') \<and>
   tx32 ''B03002_003E'' = Some (JStr ''2000'') \<and>
   tx32 ''B03002_004E'' = Some (JStr ''0'') \<and>
   tx32 ''B03002_012E'' = Some (JStr ''0'') \<and>
   tx32 ''B03002_006E'' = Some (JStr ''0'') \<and>
   tx32 ''B03002_005E'' = Some (JStr ''0'') \<and>
   tx32 ''B03002_007E'' = Some (JStr ''0'') \<and>
   tx32 ''B03002_008E'' = Some (JStr ''0'') \<and>
   tx32 ''B03002_009E'' = Some (JStr ''0'') \<and>
   tx32 ''B15003_002E'' = Some (JStr ''0'') \<and>
   tx32 ''B15003_003E'' = Some (JStr ''0'') \<and>
   tx32 ''B15003_004E'' = Some (JStr ''0'') \<and>
   tx32 ''B15003_005E'' = Some (JStr ''0'') \<and>
   tx32 ''B15003_006E'' = Some (JStr ''0'') \<and>
   tx32 ''B15003_007E'' = Some (JStr ''0'') \<and>
   tx32 ''B15003_008E'' = Some (JStr ''0'') \<and>
   tx32 ''B15003_009E'' = Some (JStr ''0'') \<and>
   tx32 ''B15003_010E'' = Some (JStr ''0'') \<and>
   tx32 ''B15003_011E'' = Some (JStr ''0'') \<and>
   tx32 ''B15003_012E'' = Some (JStr ''0'') \<and>
   tx32 ''B15003_013E'' = Some (JStr ''0'') \<and>
   tx32 ''B15003_014E'' = Some (JStr ''0'') \<and>
   tx32 ''B15003_015E'' = Some (JStr ''0'') \<and>
   tx32 ''B15003_016E'' = Some (JStr ''0'') \<and>
   tx32 ''B15003_017E'' = Some (JStr ''0'') \<and>
   tx32 ''B15003_018E'' = Some (JStr ''0'') \<and>
   tx32 ''B15003_019E'' = Some (JStr ''0'') \<and>
   tx32 ''B15003_020E'' = Some (JStr ''0'') \<and>
   tx32 ''B15003_021E'' = Some (JStr ''0'') \<and>
   tx32 ''B15003_022E'' = Some (JStr ''1500'') \<and>
   tx32 ''B15003_023E'' = Some (JStr ''0'') \<and>
   tx32 ''B15003_024E'' = Some (JStr ''0'') \<and>
   tx32 ''B15003_025E'' = Some (JStr ''0'') \<and>
   tx32 ''state'' = Some (JStr ''48'') \<and>
   tx32 ''congressional district'' = Some (JStr ''32'')"
  by code_simp

lemma parseInt_examples:
  "parseInt ''0'' = Fin 0" "parseInt ''1000'' = Fin 1000" "parseInt ''2000'' = Fin 2000"
  "parseInt ''1500'' = Fin 1500"
  by (simp_all add: parseInt_def StrWhiteSpaceChar_def isDigit_def digitsValue_def fl_numeral fl_zero)

lemma getValue_tx32:
  "getValue tx32 ''B01001_007E'' = Fin 1000 \<and>
   getValue tx32 ''B01001_008E'' = Fin 0 \<and>
   getValue tx32 ''B01001_009E'' = Fin 0 \<and>
   getValue tx32 ''B01001_010E'' = Fin 0 \<and>
   getValue tx32 ''B01001_011E'' = Fin 0 \<and>
   getValue tx32 ''B01001_012E'' = Fin 0 \<and>
   getValue tx32 ''B01001_013E'' = Fin 0 \<and>
   getValue tx32 ''B01001_014E'' = Fin 0 \<and>
   getValue tx32 ''B01001_015E'' = Fin 0 \<and>
   getValue tx32 ''B01001_016E'' = Fin 0 \<and>
   getValue tx32 ''B01001_017E'' = Fin 0 \<and>
   getValue tx32 ''B01001_018E'' = Fin 0 \<and>
   getValue tx32 ''B01001_019E'' = Fin 0 \<and>
   getValue tx32 ''B01001_020E'' = Fin 0 \<and>
   getValue tx32 ''B01001_021E'' = Fin 0 \<and>
   getValue tx32 ''B01001_022E'' = Fin 0 \<and>
   getValue tx32 ''B01001_023E'' = Fin 0 \<and>
   getValue tx32 ''B01001_024E'' = Fin 0 \<and>
   getValue tx32 ''B01001_025E'' = Fin 0 \<and>
   getValue tx32 ''B01001_031E'' = Fin 0 \<and>
   getValue tx32 ''B01001_032E'' = Fin 0 \<and>
   getValue tx32 ''B01001_033E'' = Fin 0 \<and>
   getValue tx32 ''B01001_034E'' = Fin 0 \<and>
   getValue tx32 ''B01001_035E'' = Fin 0 \<and>
   getValue tx32 ''B01001_036E'' = Fin 0 \<and>
   getValue tx32 ''B01001_037E'' = Fin 0 \<and>
   getValue tx32 ''B01001_038E'' = Fin 0 \<and>
   getValue tx32 ''B01001_039E'' = Fin 0 \<and>
   getValue tx32 ''B01001_040E'' = Fin 0 \<and>
   getValue tx32 ''B01001_041E'' = Fin 0 \<and>
   getValue tx32 ''B01001_042E'' = Fin 0 \<and>
   getValue tx32 ''B01001_043E'' = Fin 0 \<and>
   getValue tx32 ''B01001_044E'' = Fin 0 \<and>
   getValue tx32 ''B01001_045E'' = Fin 0 \<and>
   getValue tx32 ''B01001_046E'' = Fin 0 \<and>
   getValue tx32 ''B01001_047E'' = Fin 0 \<and>
   getValue tx32 ''B01001_048E'' = Fin 0 \<and>
   getValue tx32 ''B01001_049E'' = Fin 0 \<and>
   getValue tx32 ''B03002_003E'' = Fin 2000 \<and>
   getValue tx32 ''B03002_004E'' = Fin 0 \<and>
   getValue tx32 ''B03002_012E'' = Fin 0 \<and>
   getValue tx32 ''B03002_006E'' = Fin 0 \<and>
   getValue tx32 ''B03002_005E'' = Fin 0 \<and>
   getValue tx32 ''B03002_007E'' = Fin 0 \<and>
   getValue tx32 ''B03002_008E'' = Fin 0 \<and>
   getValue tx32 ''B03002_009E'' = Fin 0 \<and>
   getValue tx32 ''B15003_002E'' = Fin 0 \<and>
   getValue tx32 ''B15003_003E'' = Fin 0 \<and>
   getValue tx32 ''B15003_004E'' = Fin 0 \<and>
   getValue tx32 ''B15003_005E'' = Fin 0 \<and>
   getValue tx32 ''B15003_006E'' = Fin 0 \<and>
   getValue tx32 ''B15003_007E'' = Fin 0 \<and>
   getValue tx32 ''B15003_008E'' = Fin 0 \<and>
   getValue tx32 ''B15003_009E'' = Fin 0 \<and>
   getValue tx32 ''B15003_010E'' = Fin 0 \<and>
   getValue tx32 ''B15003_011E'' = Fin 0 \<and>
   getValue tx32 ''B15003_012E'' = Fin 0 \<and>
   getValue tx32 ''B15003_013E'' = Fin 0 \<and>
   getValue tx32 ''B15003_014E'' = Fin 0 \<and>
   getValue tx32 ''B15003_015E'' = Fin 0 \<and>
   getValue tx32 ''B15003_016E'' = Fin 0 \<and>
   getValue tx32 ''B15003_017E'' = Fin 0 \<and>
   getValue tx32 ''B15003_018E'' = Fin 0 \<and>
   getValue tx32 ''B15003_019E'' = Fin 0 \<and>
   getValue tx32 ''B15003_020E'' = Fin 0 \<and>
   getValue tx32 ''B15003_021E'' = Fin 0 \<and>
   getValue tx32 ''B15003_022E'' = Fin 1500 \<and>
   getValue tx32 ''B15003_023E'' = Fin 0 \<and>
   getValue tx32 ''B15003_024E'' = Fin 0 \<and>
   getValue tx32 ''B15003_025E'' = Fin 0"
  by (simp add: getValue_def tx32_fields parseInt_examples)

section \<open>The example record, evaluated\<close>

lemma fl_one: "fl 1 = Fin 1"
  using fl_of_int[of 1] by simp

lemma Math_round_of_int: "Math_round (Fin (of_int n)) = Fin (of_int n)"
proof -
  have "\<lfloor>(of_int n :: rat) + 1 / 2\<rfloor> = n" by (rule floor_unique) simp_all
  then show ?thesis by simp
qed

lemma Math_round_numeral:
  "Math_round (Fin (numeral k)) = Fin (numeral k)" "Math_round (Fin 0) = Fin 0"
  using Math_round_of_int[of "numeral k"] Math_round_of_int[of 0] by simp_all

lemma recodeAge_tx32_Male:
  "recodeAge tx32 ''Male'' =
     [(''18-24'', Fin 1000), (''25-34'', Fin 0), (''35-44'', Fin 0), (''45-54'', Fin 0),
      (''55-64'', Fin 0), (''65+'', Fin 0)]"
  by (simp add: recodeAge_Male getValue_tx32 fl_numeral fl_zero)

lemma recodeAge_tx32_Female:
  "recodeAge tx32 ''Female'' =
     [(''18-24'', Fin 0), (''25-34'', Fin 0), (''35-44'', Fin 0), (''45-54'', Fin 0),
      (''55-64'', Fin 0), (''65+'', Fin 0)]"
  by (simp add: recodeAge_Female getValue_tx32 fl_numeral fl_zero)

lemma recodeRace_tx32:
  "recodeRace tx32 =
     [(''White'', Fin 2000), (''Black'', Fin 0), (''Hispanic'', Fin 0), (''Asian'', Fin 0),
      (''Other'', Fin 0)]"
  by (simp add: recodeRace_def getValue_tx32 fl_numeral fl_zero)

lemma recodeEducation_tx32:
  "recodeEducation tx32 =
     [(''Less Than HS'', Fin 0), (''High School'', Fin 0), (''Some College'', Fin 0),
      (''BA/BS'', Fin 1500), (''Post-Grad'', Fin 0)]"
  by (simp add: recodeEducation_def getValue_tx32 fl_numeral fl_zero)

lemma totals_tx32:
  "sumValues (recodeAge tx32 ''Male'') = Fin 1000"
  "sumValues (recodeAge tx32 ''Female'') = Fin 0"
  "sumValues (recodeRace tx32) = Fin 2000"
  "sumValues (recodeEducation tx32) = Fin 1500"
  by (simp_all add: sumValues_def recodeAge_tx32_Male recodeAge_tx32_Female recodeRace_tx32
      recodeEducation_tx32 fl_numeral fl_zero)

lemma male_cells_tx32:
  "sexCells yr ''TX'' ''TX-32'' ''South'' (recodeRace tx32) (recodeEducation tx32) tx32 ''Male'' =
     [\<lparr>year = yr, state = ''TX'', cd = ''TX-32'', ageGroup = ''18-24'', sex = ''Male'',
       raceEth = ''White'', education = ''BA/BS'', censusRegion = ''South'',
       population = Fin 1000\<rparr>]"
  unfolding sexCells_def crossTabCell_def cellPopulation_def Let_def totals_tx32 strictEqZero_def
  unfolding recodeAge_tx32_Male recodeRace_tx32 recodeEducation_tx32
  by (simp add: fl_numeral fl_zero fl_one Math_round_numeral del: Math_round.simps)

lemma female_cells_tx32:
  "sexCells yr st district region (recodeRace tx32) (recodeEducation tx32) tx32 ''Female'' = []"
  unfolding sexCells_def crossTabCell_def cellPopulation_def Let_def totals_tx32 strictEqZero_def
  by simp

lemma parseDistrict_tx32: "parseDistrict tx32 = Inr (Abbrev ''TX'', ''TX-32'', Some (JStr ''32''))"
  by (simp add: parseDistrict_def fipsToState_def tx32_fields FIPS_TO_STATE_def)

lemma getRegion_TX: "getRegion (Abbrev ''TX'') = Inr ''South''"
  by (simp add: getRegion_def censusRegion_mapping_def)

section \<open>The proportions are rounded\<close>

text \<open>
  The proportions are floating-point ratios, and the product is taken from the left. With a
  total of 49 persons, \<open>49 * (1 / 49)\<close> is the Number just below 1, so a combination whose
  exact share is one half has a product just below one half and is rounded to 0, where
  exact arithmetic would round to 1. The specification's formula is therefore read with the
  same floating-point operations, in the same order.
\<close>

lemma floor_numeral_div: "\<lfloor>numeral a / numeral b :: rat\<rfloor> = numeral a div numeral b"
  using floor_divide_of_int_eq[of "numeral a" "numeral b", where ?'a = rat] by simp

lemma floor_neg_numeral_div:
  "\<lfloor>- (numeral a / numeral b) :: rat\<rfloor> = - numeral a div numeral b"
  using floor_divide_of_int_eq[of "- numeral a" "numeral b", where ?'a = rat] by simp

lemma fl_eval:
  assumes "x \<noteq> 0" and "ilog2 \<bar>x\<bar> = e" and "- 1022 \<le> e"
    and "roundTiesToEven (x / 2 powi (e - 52)) = n"
    and "\<bar>of_int n * (2::rat) powi (e - 52)\<bar> < 2 ^ 1024"
  shows "fl x = Fin (of_int n * 2 powi (e - 52))"
proof -
  have m: "max (ilog2 \<bar>x\<bar>) (- 1022) = e" using assms(2,3) by simp
  have "\<not> 2 ^ 1024 \<le> \<bar>of_int n * (2::rat) powi (e - 52)\<bar>" using assms(5) by (simp only: not_le)
  then show ?thesis unfolding fl_def Let_def m assms(4) using assms(1) by (simp only: if_False)
qed

lemma bitlen_small: "bitlen 48 = 6" "bitlen 1 = 1" "bitlen 2 = 2"
  by code_simp+

lemma fl_49th: "fl (1 / 49) = Fin (5882252574524729 / 2 ^ 58)"
proof -
  have "fl (1 / 49) = Fin (of_int 5882252574524729 * 2 powi (- 6 - 52))"
  proof (rule fl_eval)
    show "ilog2 \<bar>1 / 49\<bar> = - 6" by (simp add: ilog2_def bitlen_small)
    show "roundTiesToEven (1 / 49 / 2 powi (- 6 - 52)) = 5882252574524729"
      by (simp add: roundTiesToEven_def power_int_minus Let_def floor_numeral_div)
    show "\<bar>of_int 5882252574524729 * (2::rat) powi (- 6 - 52)\<bar> < 2 ^ 1024"
      by (simp add: power_int_minus)
  qed simp_all
  then show ?thesis by (simp add: power_int_minus)
qed

lemma fl_49_times: "fl (49 * (5882252574524729 / 2 ^ 58)) = Fin (9007199254740991 / 2 ^ 53)"
proof -
  have "fl (49 * (5882252574524729 / 2 ^ 58)) = Fin (of_int 9007199254740991 * 2 powi (- 1 - 52))"
  proof (rule fl_eval)
    show "ilog2 \<bar>49 * (5882252574524729 / 2 ^ 58)\<bar> = - 1"
      by (simp add: ilog2_def bitlen_small ceiling_def floor_neg_numeral_div)
    show "roundTiesToEven (49 * (5882252574524729 / 2 ^ 58) / 2 powi (- 1 - 52)) = 9007199254740991"
      by (simp add: roundTiesToEven_def power_int_minus Let_def floor_numeral_div)
    show "\<bar>of_int 9007199254740991 * (2::rat) powi (- 1 - 52)\<bar> < 2 ^ 1024"
      by (simp add: power_int_minus)
  qed simp_all
  then show ?thesis by (simp add: power_int_minus)
qed


lemma fl_halved: "fl (9007199254740991 / 2 ^ 53 * (1 / 2)) = Fin (9007199254740991 / 2 ^ 54)"
proof -
  have "fl (9007199254740991 / 2 ^ 53 * (1 / 2)) = Fin (of_int 9007199254740991 * 2 powi (- 2 - 52))"
  proof (rule fl_eval)
    show "ilog2 \<bar>9007199254740991 / 2 ^ 53 * (1 / 2)\<bar> = - 2"
      by (simp add: ilog2_def bitlen_small ceiling_def floor_neg_numeral_div)
    show "roundTiesToEven (9007199254740991 / 2 ^ 53 * (1 / 2) / 2 powi (- 2 - 52)) = 9007199254740991"
      by (simp add: roundTiesToEven_def power_int_minus Let_def)
    show "\<bar>of_int 9007199254740991 * (2::rat) powi (- 2 - 52)\<bar> < 2 ^ 1024"
      by (simp add: power_int_minus)
  qed simp_all
  then show ?thesis by (simp add: power_int_minus)
qed

lemma fl_half: "fl (1 / 2) = Fin (1 / 2)"
proof -
  have "fl (1 / 2) = Fin (of_int (2 ^ 52) * 2 powi (- 1 - 52))"
  proof (rule fl_eval)
    show "ilog2 \<bar>1 / 2 :: rat\<bar> = - 1" by (simp add: ilog2_def bitlen_small)
    show "roundTiesToEven (1 / 2 / 2 powi (- 1 - 52)) = 2 ^ 52"
      by (simp add: roundTiesToEven_def power_int_minus Let_def)
    show "\<bar>of_int (2 ^ 52) * (2::rat) powi (- 1 - 52)\<bar> < 2 ^ 1024"
      by (simp add: power_int_minus)
  qed simp_all
  then show ?thesis by (simp add: power_int_minus)
qed

lemma proportions_are_rounded:
  "jmul (Fin 49) (jdiv (Fin 1) (Fin 49)) = Fin (9007199254740991 / 2 ^ 53) \<and>
   cellPopulation (Fin 49) (Fin 1) (Fin 2) (Fin 1) (Fin 1) (Fin 1) = Fin 0 \<and>
   spec_population (Fin 49) (Fin 1) (Fin 2) (Fin 1) (Fin 1) (Fin 1) = Fin 0 \<and>
   \<lfloor>(49::rat) * (1 / 49) * (1 / 2) * (1 / 1) + 1 / 2\<rfloor> = 1"
proof -
  have a: "jmul (Fin 49) (jdiv (Fin 1) (Fin 49)) = Fin (9007199254740991 / 2 ^ 53)"
    using fl_49th fl_49_times by simp
  have b: "jdiv (Fin 1) (Fin 2) = Fin (1 / 2)" using fl_half by simp
  have c: "jdiv (Fin 1) (Fin 1) = Fin 1" using fl_one by simp
  have d: "jmul (Fin (9007199254740991 / 2 ^ 53)) (Fin (1 / 2)) = Fin (9007199254740991 / 2 ^ 54)"
    using fl_halved by simp
  have e: "jmul (Fin (9007199254740991 / 2 ^ 54)) (Fin 1) = Fin (9007199254740991 / 2 ^ 54)"
    using fl_halved by simp
  have p: "jmul (jmul (jmul (Fin 49) (jdiv (Fin 1) (Fin 49))) (jdiv (Fin 1) (Fin 2)))
             (jdiv (Fin 1) (Fin 1)) = Fin (9007199254740991 / 2 ^ 54)"
    by (simp only: a b c d e)
  have f: "\<lfloor>(9007199254740991 / 2 ^ 54 :: rat) + 1 / 2\<rfloor> = 0" by (simp add: floor_numeral_div)
  have "cellPopulation (Fin 49) (Fin 1) (Fin 2) (Fin 1) (Fin 1) (Fin 1) = Fin 0"
    unfolding cellPopulation_def Let_def p using f by simp
  moreover have "spec_population (Fin 49) (Fin 1) (Fin 2) (Fin 1) (Fin 1) (Fin 1) = Fin 0"
    unfolding spec_population_def p using f by simp
  moreover have "\<lfloor>(49::rat) * (1 / 49) * (1 / 2) * (1 / 1) + 1 / 2\<rfloor> = 1" by simp
  ultimately show ?thesis using a by blast
qed

section \<open>The cells of one slice\<close>

lemma sexCells_spec_formula:
  assumes "\<not> strictEqZero (sumValues (recodeAge r sx))"
    and "\<not> strictEqZero (sumValues (recodeRace r))"
    and "\<not> strictEqZero (sumValues (recodeEducation r))"
  shows "sexCells yr st district region (recodeRace r) (recodeEducation r) r sx =
     [\<lparr>year = yr, state = st, cd = district, ageGroup = fst a, sex = sx, raceEth = fst rc,
       education = fst e, censusRegion = region,
       population = spec_population (sumValues (recodeAge r sx)) (snd a)
                      (sumValues (recodeRace r)) (snd rc) (sumValues (recodeEducation r)) (snd e)\<rparr>.
      a \<leftarrow> recodeAge r sx, rc \<leftarrow> recodeRace r, e \<leftarrow> recodeEducation r,
      jgt (spec_population (sumValues (recodeAge r sx)) (snd a)
             (sumValues (recodeRace r)) (snd rc) (sumValues (recodeEducation r)) (snd e)) (Fin 0)]"
  unfolding sexCells_def crossTabCell_def cellPopulation_def Let_def spec_population_def
  using assms by (simp only: pushed_eq simp_thms if_False)

section \<open>A marginal total of zero\<close>

lemma processRow_resolved:
  assumes "parseDistrict r = Inr (st, district, n)" and "getRegion st = Inr region"
  shows "processRow yr r =
     Inr (sexCells yr (stateText st) district region (recodeRace r) (recodeEducation r) r ''Female'' @
          sexCells yr (stateText st) district region (recodeRace r) (recodeEducation r) r ''Male'')"
  using assms by (simp add: processRow_def Let_def)

text \<open>
  Claim C2. If one of the three marginal totals of a record and a sex is zero, the builder
  emits no cell for that slice, and nothing is raised: a record whose geography resolves is
  still processed to the end, its result being the cells of the two slices.
\<close>

theorem zero_marginal_no_cells:
  assumes "strictEqZero (sumValues (recodeAge r sx)) \<or> strictEqZero (sumValues (recodeRace r)) \<or>
           strictEqZero (sumValues (recodeEducation r))"
    and "parseDistrict r = Inr (st, district, n)"
    and "getRegion st = Inr region"
  shows "sexCells yr (stateText st) district region (recodeRace r) (recodeEducation r) r sx = [] \<and>
         processRow yr r =
           Inr (sexCells yr (stateText st) district region (recodeRace r) (recodeEducation r) r ''Female'' @
                sexCells yr (stateText st) district region (recodeRace r) (recodeEducation r) r ''Male'')"
proof
  show "sexCells yr (stateText st) district region (recodeRace r) (recodeEducation r) r sx = []"
    using assms(1) by (simp add: sexCells_def crossTabCell_def)
  show "processRow yr r =
           Inr (sexCells yr (stateText st) district region (recodeRace r) (recodeEducation r) r ''Female'' @
                sexCells yr (stateText st) district region (recodeRace r) (recodeEducation r) r ''Male'')"
    using assms(2,3) by (rule processRow_resolved)
qed

theorem zero_marginal_no_cells_witness:
  "strictEqZero (sumValues (recodeAge tx32 ''Female'')) \<and>
   parseDistrict tx32 = Inr (Abbrev ''TX'', ''TX-32'', Some (JStr ''32'')) \<and>
   getRegion (Abbrev ''TX'') = Inr ''South'' \<and>
   sexCells 2023 ''TX'' ''TX-32'' ''South'' (recodeRace tx32) (recodeEducation tx32) tx32 ''Female'' = [] \<and>
   processRow 2023 tx32 =
     Inr [\<lparr>year = 2023, state = ''TX'', cd = ''TX-32'', ageGroup = ''18-24'', sex = ''Male'',
           raceEth = ''White'', education = ''BA/BS'', censusRegion = ''South'',
           population = Fin 1000\<rparr>]"
proof -
  have h1: "strictEqZero (sumValues (recodeAge tx32 ''Female'')) \<or>
            strictEqZero (sumValues (recodeRace tx32)) \<or>
            strictEqZero (sumValues (recodeEducation tx32))"
    by (simp add: totals_tx32 strictEqZero_def)
  from zero_marginal_no_cells[OF h1 parseDistrict_tx32 getRegion_TX, of 2023]
  show ?thesis
    by (simp add: totals_tx32 strictEqZero_def parseDistrict_tx32 getRegion_TX male_cells_tx32)
qed

section \<open>The end-to-end example\<close>

lemma populations_tx32:
  "[cellPopulation (sumValues (recodeAge tx32 ''Male'')) (snd a)
      (sumValues (recodeRace tx32)) (snd rc) (sumValues (recodeEducation tx32)) (snd e).
    a \<leftarrow> recodeAge tx32 ''Male'', rc \<leftarrow> recodeRace tx32, e \<leftarrow> recodeEducation tx32] =
   [Fin 0, Fin 0, Fin 0, Fin 1000] @ replicate 146 (Fin 0)"
  unfolding cellPopulation_def Let_def totals_tx32
  unfolding recodeAge_tx32_Male recodeRace_tx32 recodeEducation_tx32
  by (simp add: fl_numeral fl_zero fl_one Math_round_numeral eval_nat_numeral del: Math_round.simps)

lemma storeLoop_one: "storeLoop [c] 0 0 table = (1, createMany table [c])"
  by (subst storeLoop.simps, subst storeLoop.simps) (simp add: slice_def batchSize_def)

text \<open>
  Claim C8. For the single synthetic record of district TX-32 (male 18-19 field 1000, White
  alone field 2000, Bachelor's field 1500, every other count field 0) the build produces
  exactly one cell, Male, 18-24, White, BA/BS, with population 1000: every other male
  combination has population 0 and is left out, and the female slice is empty.
\<close>

theorem tx32_end_to_end:
  "generateCells yr [tx32] =
     ([\<lparr>year = yr, state = ''TX'', cd = ''TX-32'', ageGroup = ''18-24'', sex = ''Male'',
        raceEth = ''White'', education = ''BA/BS'', censusRegion = ''South'',
        population = Fin 1000\<rparr>], 0) \<and>
   sexCells yr ''TX'' ''TX-32'' ''South'' (recodeRace tx32) (recodeEducation tx32) tx32 ''Female'' = [] \<and>
   [cellPopulation (sumValues (recodeAge tx32 ''Male'')) (snd a)
      (sumValues (recodeRace tx32)) (snd rc) (sumValues (recodeEducation tx32)) (snd e).
    a \<leftarrow> recodeAge tx32 ''Male'', rc \<leftarrow> recodeRace tx32, e \<leftarrow> recodeEducation tx32] =
     [Fin 0, Fin 0, Fin 0, Fin 1000] @ replicate 146 (Fin 0) \<and>
   cellsGenerated (fst (buildPoststratTable yr [tx32] table)) = 1 \<and>
   districtsProcessed (fst (buildPoststratTable yr [tx32] table)) = 1 \<and>
   districtsSkipped (fst (buildPoststratTable yr [tx32] table)) = 0"
proof -
  have row: "processRow yr tx32 =
     Inr [\<lparr>year = yr, state = ''TX'', cd = ''TX-32'', ageGroup = ''18-24'', sex = ''Male'',
           raceEth = ''White'', education = ''BA/BS'', censusRegion = ''South'',
           population = Fin 1000\<rparr>]"
    by (simp add: processRow_resolved[OF parseDistrict_tx32 getRegion_TX] female_cells_tx32
        male_cells_tx32)
  have gen: "generateCells yr [tx32] =
     ([\<lparr>year = yr, state = ''TX'', cd = ''TX-32'', ageGroup = ''18-24'', sex = ''Male'',
        raceEth = ''White'', education = ''BA/BS'', censusRegion = ''South'',
        population = Fin 1000\<rparr>], 0)"
    by (simp add: generateCells_def row)
  show ?thesis
    by (simp only: gen female_cells_tx32 populations_tx32 buildPoststratTable_def Let_def
        split_conv storeLoop_one fst_conv list.size buildResult.simps simp_thms)
       simp
qed

section \<open>Missing and malformed count fields\<close>

lemma getValue_falsy: "\<not> truthy (r key) \<Longrightarrow> getValue r key = Fin 0"
  by (simp add: getValue_def parseInt_examples)

lemma parseInt_NA: "parseInt ''N/A'' = NaN"
  by (simp add: parseInt_def StrWhiteSpaceChar_def isDigit_def)

lemma jadd_NaN_right: "jadd v NaN = NaN"
  by (cases v) simp_all

lemma jdiv_NaN_right: "jdiv v NaN = NaN"
  by (cases v) simp_all

lemma jmul_NaN_right: "jmul v NaN = NaN"
  by (cases v) simp_all

lemma getValue_malformed:
  "getValue tx32_malformed ''B03002_003E'' = NaN"
  "k \<noteq> ''B03002_003E'' \<Longrightarrow> getValue tx32_malformed k = getValue tx32 k"
  by (simp_all add: getValue_def tx32_malformed_def parseInt_NA)

lemma recodeRace_malformed:
  "recodeRace tx32_malformed =
     [(''White'', NaN), (''Black'', Fin 0), (''Hispanic'', Fin 0), (''Asian'', Fin 0),
      (''Other'', Fin 0)]"
  by (simp add: recodeRace_def getValue_malformed getValue_tx32 fl_zero)

lemma sexCells_NaN_total:
  assumes "sumValues raceCounts = NaN"
  shows "sexCells yr st district region raceCounts educationCounts r sx = []"
  by (simp add: sexCells_def crossTabCell_def cellPopulation_def assms jdiv_NaN_right
      jmul_NaN_right Let_def)

lemma parseDistrict_malformed:
  "parseDistrict tx32_malformed = Inr (Abbrev ''TX'', ''TX-32'', Some (JStr ''32''))"
  using parseDistrict_tx32 by (simp add: parseDistrict_def tx32_malformed_def)

text \<open>
  Claim C3. A missing count field contributes zero, a malformed (non-numeric) one contributes
  zero as well, and recoding never raises. The first and the last hold (\<open>getValue_falsy\<close>;
  the recodes are total functions). The second does not: \<open>parseInt\<close> of a string with no
  leading digits is NaN, the NaN is the category count, the race total is NaN, and the record
  then yields no cell at all. The theorem evaluates the code on the example record whose
  White alone field is the string \<open>N/A\<close>.
\<close>

theorem malformed_field_is_NaN:
  "getValue tx32_malformed ''B03002_003E'' = NaN \<and>
   recodeRace tx32_malformed =
     [(''White'', NaN), (''Black'', Fin 0), (''Hispanic'', Fin 0), (''Asian'', Fin 0),
      (''Other'', Fin 0)] \<and>
   sumValues (recodeRace tx32_malformed) = NaN \<and>
   processRow yr tx32_malformed = Inr []"
proof -
  have t: "sumValues (recodeRace tx32_malformed) = NaN"
    by (simp add: sumValues_def recodeRace_malformed)
  have p: "processRow yr tx32_malformed = Inr []"
    by (simp add: processRow_resolved[OF parseDistrict_malformed getRegion_TX]
        sexCells_NaN_total[OF t])
  show ?thesis by (intro conjI getValue_malformed(1) recodeRace_malformed t p)
qed

section \<open>Region lookup\<close>

lemma getRegionLoop_Inl_iff:
  "(getRegionLoop m st = Inl e) =
   (e = UnknownState st \<and> (\<forall>rg\<in>set m. \<not> Array_includes (snd rg) st))"
  by (induction m) (auto split: if_splits)

lemma states_have_one_region:
  "\<forall>s\<in>set (removeAll ''PR'' (map snd FIPS_TO_STATE)).
     length (regionsOf s) = 1 \<and> getRegion (Abbrev s) = Inr (hd (regionsOf s))"
  by code_simp

text \<open>
  Claim C4, as stated, fails at Puerto Rico: the FIPS table produces \<open>PR\<close> from the code 72,
  no region's state set holds \<open>PR\<close>, and \<open>getRegion\<close> raises.
\<close>

theorem PR_has_no_region:
  "fipsToState (Some (JStr ''72'')) = Inr (Abbrev ''PR'') \<and>
   getRegion (Abbrev ''PR'') = Inl (UnknownState (Abbrev ''PR'')) \<and>
   regionsOf ''PR'' = []"
  by (simp add: fipsToState_def FIPS_TO_STATE_def getRegion_def censusRegion_mapping_def
      regionsOf_def)

text \<open>
  Claim C4, amended. For every state abbreviation of the FIPS table other than \<open>PR\<close> (the
  fifty states and DC) exactly one region's state set holds the abbreviation and
  \<open>getRegion\<close> returns that region; and \<open>getRegion\<close> raises, always the unknown-state
  error for its argument, exactly when no region's state set holds the argument.
\<close>

theorem getRegion_on_states:
  "(\<forall>s\<in>set (removeAll ''PR'' (map snd FIPS_TO_STATE)).
      length (regionsOf s) = 1 \<and> getRegion (Abbrev s) = Inr (hd (regionsOf s))) \<and>
   (\<forall>st e. (getRegion st = Inl e) =
      (e = UnknownState st \<and> (\<forall>rg\<in>set censusRegion_mapping. \<not> Array_includes (snd rg) st)))"
  using states_have_one_region by (simp add: getRegion_def getRegionLoop_Inl_iff)

theorem getRegion_on_states_witness:
  "''TX'' \<in> set (removeAll ''PR'' (map snd FIPS_TO_STATE)) \<and>
   regionsOf ''TX'' = [''South''] \<and>
   getRegion (Abbrev ''TX'') = Inr ''South'' \<and>
   (\<exists>rg\<in>set censusRegion_mapping. Array_includes (snd rg) (Abbrev ''TX'')) \<and>
   getRegion (Abbrev ''ZZ'') = Inl (UnknownState (Abbrev ''ZZ''))"
proof -
  have m: "''TX'' \<in> set (removeAll ''PR'' (map snd FIPS_TO_STATE))"
    by (simp add: FIPS_TO_STATE_def)
  have r: "regionsOf ''TX'' = [''South'']"
    by (simp add: regionsOf_def censusRegion_mapping_def)
  have z: "\<forall>rg\<in>set censusRegion_mapping. \<not> Array_includes (snd rg) (Abbrev ''ZZ'')"
    by (simp add: censusRegion_mapping_def)
  from getRegion_on_states have
    a: "\<forall>s\<in>set (removeAll ''PR'' (map snd FIPS_TO_STATE)).
          length (regionsOf s) = 1 \<and> getRegion (Abbrev s) = Inr (hd (regionsOf s))"
    and b: "\<And>st e. (getRegion st = Inl e) =
      (e = UnknownState st \<and> (\<forall>rg\<in>set censusRegion_mapping. \<not> Array_includes (snd rg) st))"
    by blast+
  from a m have g: "getRegion (Abbrev ''TX'') = Inr ''South''" by (auto simp: r)
  have n: "\<exists>rg\<in>set censusRegion_mapping. Array_includes (snd rg) (Abbrev ''TX'')"
    using b[of "Abbrev ''TX''" "UnknownState (Abbrev ''TX'')"] g by auto
  have u: "getRegion (Abbrev ''ZZ'') = Inl (UnknownState (Abbrev ''ZZ''))"
    using b[of "Abbrev ''ZZ''" "UnknownState (Abbrev ''ZZ'')"] z by simp
  show ?thesis by (intro conjI m r g n u)
qed

section \<open>Skipped records\<close>

lemma processRow_Inl_iff: "(processRow yr r = Inl e) = (geographyError r = Some e)"
  by (auto simp: processRow_def geographyError_def Let_def split: sum.splits prod.splits)

lemma buildLoop_eq:
  "buildLoop yr rs (cells, k) =
     (cells @ concat (map (\<lambda>r. case processRow yr r of Inl err \<Rightarrow> [] | Inr pushed \<Rightarrow> pushed) rs),
      k + length (filter (\<lambda>r. geographyError r \<noteq> None) rs))"
proof (induction rs arbitrary: cells k)
  case Nil
  show ?case by simp
next
  case (Cons r rs)
  show ?case
  proof (cases "processRow yr r")
    case (Inl e)
    then have "geographyError r = Some e" by (simp add: processRow_Inl_iff)
    with Inl show ?thesis by (simp add: Cons.IH)
  next
    case (Inr pushed)
    have "geographyError r = None"
    proof (cases "geographyError r")
      case (Some e)
      then have "processRow yr r = Inl e" by (simp add: processRow_Inl_iff)
      with Inr show ?thesis by simp
    qed simp
    with Inr show ?thesis by (simp add: Cons.IH)
  qed
qed

lemma generateCells_eq:
  "generateCells yr censusData =
     (concat (map (\<lambda>r. case processRow yr r of Inl err \<Rightarrow> [] | Inr pushed \<Rightarrow> pushed) censusData),
      length (filter (\<lambda>r. geographyError r \<noteq> None) censusData))"
  by (simp add: generateCells_def buildLoop_eq)

text \<open>
  Claim C5. A record for which \<open>parseDistrict\<close> or \<open>getRegion\<close> raises is counted as
  skipped and contributes no cell; every other record contributes exactly the cells its own
  processing pushes, whatever the records around it; the build returns its result, in which
  \<open>districtsProcessed\<close> is the input length minus \<open>districtsSkipped\<close>.
\<close>

theorem bad_geography_is_skipped:
  "fst (generateCells yr censusData) =
     concat (map (\<lambda>r. case processRow yr r of Inl err \<Rightarrow> [] | Inr pushed \<Rightarrow> pushed) censusData) \<and>
   districtsSkipped (fst (buildPoststratTable yr censusData table)) =
     int (length (filter (\<lambda>r. geographyError r \<noteq> None) censusData)) \<and>
   districtsProcessed (fst (buildPoststratTable yr censusData table)) =
     int (length censusData) - districtsSkipped (fst (buildPoststratTable yr censusData table)) \<and>
   success (fst (buildPoststratTable yr censusData table)) \<and>
   (\<forall>r e. (processRow yr r = Inl e) = (geographyError r = Some e))"
  by (simp add: buildPoststratTable_def generateCells_eq processRow_Inl_iff split: prod.splits)

section \<open>The stored count\<close>

lemma length_slice: "length (slice xs i (i + n)) = min n (length xs - i)"
  by (simp add: slice_def)

lemma storeLoop_count:
  "i \<le> length cells \<Longrightarrow> fst (storeLoop cells i storedCount table) = storedCount + (length cells - i)"
proof (induction cells i storedCount table rule: storeLoop.induct)
  case (1 cells i storedCount table)
  show ?case
  proof (cases "i < length cells")
    case True
    show ?thesis
    proof (cases "i + batchSize \<le> length cells")
      case le: True
      with True "1.IH"[OF True refl] show ?thesis
        by (subst storeLoop.simps) (simp add: length_slice Let_def)
    next
      case gt: False
      then have "\<not> i + batchSize < length cells" by simp
      then have "storeLoop cells (i + batchSize) (storedCount + length (slice cells i (i + batchSize)))
                   (createMany table (slice cells i (i + batchSize))) =
                 (storedCount + length (slice cells i (i + batchSize)),
                  createMany table (slice cells i (i + batchSize)))"
        by (subst storeLoop.simps) simp
      with True gt show ?thesis
        by (subst storeLoop.simps) (simp add: length_slice Let_def)
    qed
  next
    case False
    with "1.prems" show ?thesis by (subst storeLoop.simps) simp
  qed
qed

text \<open>
  Claim C10. In every result of the build \<open>cellsStored\<close> equals \<open>cellsGenerated\<close>: the
  stored count adds up the lengths of the batches sliced from the generated cells, whatever
  the table held before and whatever rows the store left out as duplicates.
\<close>

theorem stored_equals_generated:
  "cellsStored (fst (buildPoststratTable yr censusData table)) =
   cellsGenerated (fst (buildPoststratTable yr censusData table))"
proof -
  obtain cells k where g: "generateCells yr censusData = (cells, k)" by (cases "generateCells yr censusData")
  obtain n table' where s: "storeLoop cells 0 0 table = (n, table')" by (cases "storeLoop cells 0 0 table")
  have "n = length cells" using storeLoop_count[of 0 cells 0 table] s by simp
  then show ?thesis by (simp add: buildPoststratTable_def g s)
qed

section \<open>Distinct identity keys\<close>

lemma distinct_concat_tagged:
  assumes "distinct (map t xs)"
    and "\<And>x. x \<in> set xs \<Longrightarrow> distinct (map k (f x))"
    and "\<And>x c. x \<in> set xs \<Longrightarrow> c \<in> set (f x) \<Longrightarrow> p (k c) = t x"
  shows "distinct (map k (concat (map f xs)))"
  using assms
proof (induction xs)
  case Nil
  show ?case by simp
next
  case (Cons x xs)
  have rest: "distinct (map k (concat (map f xs)))"
    using Cons.prems by (intro Cons.IH) auto
  have first: "distinct (map k (f x))" using Cons.prems(2) by simp
  have apart: "k c \<noteq> k c'" if "c \<in> set (f x)" and "x' \<in> set xs" and "c' \<in> set (f x')" for c c' x'
  proof
    assume "k c = k c'"
    then have "p (k c) = p (k c')" by simp
    moreover have "p (k c) = t x" using Cons.prems(3) that(1) by simp
    moreover have "p (k c') = t x'" using Cons.prems(3) that(2,3) by simp
    ultimately have "t x = t x'" by simp
    with that(2) Cons.prems(1) show False by auto
  qed
  show ?case using first rest apart by (auto simp: image_iff)
qed

lemma crossTabCell_fields:
  assumes "c \<in> set (crossTabCell yr st d region sx ac rcs es a b e)"
  shows "year c = yr \<and> state c = st \<and> cd c = d \<and> ageGroup c = fst a \<and> sex c = sx \<and>
         raceEth c = fst b \<and> education c = fst e \<and> censusRegion c = region"
  using assms by (auto simp: crossTabCell_def Let_def split: if_splits)

lemma crossTabCell_distinct: "distinct (map keyOf (crossTabCell yr st d region sx ac rcs es a b e))"
  by (simp add: crossTabCell_def Let_def)

lemma recode_labels_distinct:
  "distinct (map fst (recodeAge r sx))" "distinct (map fst (recodeRace r))"
  "distinct (map fst (recodeEducation r))"
  by (simp_all add: recodeAge_def recodeRace_def recodeEducation_def Let_def)

lemma sexCells_fields:
  assumes "c \<in> set (sexCells yr st d region rcs es r sx)"
  shows "year c = yr \<and> state c = st \<and> cd c = d \<and> sex c = sx \<and> censusRegion c = region"
  using assms crossTabCell_fields by (fastforce simp: sexCells_def Let_def)

lemma sexCells_distinct:
  "distinct (map keyOf (sexCells yr st d region (recodeRace r) (recodeEducation r) r sx))"
  unfolding sexCells_def Let_def
proof (rule distinct_concat_tagged[where t = fst and p = "\<lambda>k. case k of (y, s, d, a, rest) \<Rightarrow> a"])
  show "distinct (map fst (recodeAge r sx))" by (rule recode_labels_distinct)
next
  fix a c
  assume "c \<in> set (concat (map (\<lambda>rc. concat (map (\<lambda>e.
      crossTabCell yr st d region sx (recodeAge r sx) (recodeRace r) (recodeEducation r) a rc e)
      (recodeEducation r))) (recodeRace r)))"
  then show "(case keyOf c of (y, s, d, a, rest) \<Rightarrow> a) = fst a"
    using crossTabCell_fields by (fastforce simp: keyOf_def)
next
  fix a
  show "distinct (map keyOf (concat (map (\<lambda>rc. concat (map (\<lambda>e.
      crossTabCell yr st d region sx (recodeAge r sx) (recodeRace r) (recodeEducation r) a rc e)
      (recodeEducation r))) (recodeRace r))))"
  proof (rule distinct_concat_tagged[where t = fst
        and p = "\<lambda>k. case k of (y, s, d, a, x, rc, rest) \<Rightarrow> rc"])
    show "distinct (map fst (recodeRace r))" by (rule recode_labels_distinct)
  next
    fix rc c
    assume "c \<in> set (concat (map (\<lambda>e.
      crossTabCell yr st d region sx (recodeAge r sx) (recodeRace r) (recodeEducation r) a rc e)
      (recodeEducation r)))"
    then show "(case keyOf c of (y, s, d, a, x, rc, rest) \<Rightarrow> rc) = fst rc"
      using crossTabCell_fields by (fastforce simp: keyOf_def)
  next
    fix rc
    show "distinct (map keyOf (concat (map (\<lambda>e.
      crossTabCell yr st d region sx (recodeAge r sx) (recodeRace r) (recodeEducation r) a rc e)
      (recodeEducation r))))"
    proof (rule distinct_concat_tagged[where t = fst
          and p = "\<lambda>k. case k of (y, s, d, a, x, rc, e, rest) \<Rightarrow> e"])
      show "distinct (map fst (recodeEducation r))" by (rule recode_labels_distinct)
    next
      fix e c
      assume "c \<in> set (crossTabCell yr st d region sx (recodeAge r sx) (recodeRace r)
                         (recodeEducation r) a rc e)"
      then show "(case keyOf c of (y, s, d, a, x, rc, e, rest) \<Rightarrow> e) = fst e"
        using crossTabCell_fields by (fastforce simp: keyOf_def)
    next
      fix e
      show "distinct (map keyOf (crossTabCell yr st d region sx (recodeAge r sx) (recodeRace r)
                                   (recodeEducation r) a rc e))"
        by (rule crossTabCell_distinct)
    qed
  qed
qed


lemma find_fips:
  assumes "map_of T k = Some s" and "distinct (map snd T)"
  shows "find (\<lambda>p. snd p = s) T = Some (k, s)"
  using assms
proof (induction T)
  case Nil
  then show ?case by simp
next
  case (Cons p T)
  show ?case
  proof (cases "fst p = k")
    case True
    with Cons.prems(1) have "p = (k, s)" by (cases p) simp
    then show ?thesis by simp
  next
    case False
    with Cons.prems(1) have m: "map_of T k = Some s" by (cases p) simp
    then have "(k, s) \<in> set T" by (rule map_of_SomeD)
    then have "s \<in> snd ` set T" by force
    with Cons.prems(2) have "snd p \<noteq> s" by auto
    moreover have "find (\<lambda>p. snd p = s) T = Some (k, s)"
      using m Cons.prems(2) by (intro Cons.IH) simp_all
    ultimately show ?thesis by simp
  qed
qed

lemma FIPS_TO_STATE_injective: "distinct (map snd FIPS_TO_STATE)"
  by code_simp

lemma fipsOf_lookup: "map_of FIPS_TO_STATE k = Some s \<Longrightarrow> fipsOf s = k"
  by (simp add: fipsOf_def find_fips[OF _ FIPS_TO_STATE_injective])

lemma getRegionLoop_Inherited: "getRegionLoop m (Inherited k) = Inl (UnknownState (Inherited k))"
  by (induction m) auto

lemma processRow_InrD:
  assumes "processRow yr r = Inr cs"
  shows "\<exists>s region. map_of FIPS_TO_STATE (ToString (r ''state'')) = Some s \<and>
           cs = sexCells yr s (s @ ''-'' @ ToString (r ''congressional district'')) region
                  (recodeRace r) (recodeEducation r) r ''Female'' @
                sexCells yr s (s @ ''-'' @ ToString (r ''congressional district'')) region
                  (recodeRace r) (recodeEducation r) r ''Male''"
proof (cases "map_of FIPS_TO_STATE (ToString (r ''state''))")
  case None
  then have "processRow yr r = Inl (UnknownFIPS (ToString (r ''state''))) \<or>
             processRow yr r = Inl (UnknownState (Inherited (ToString (r ''state''))))"
    by (simp add: processRow_def parseDistrict_def fipsToState_def Let_def getRegion_def
        getRegionLoop_Inherited)
  with assms show ?thesis by auto
next
  case (Some s)
  then have pd: "parseDistrict r =
      Inr (Abbrev s, s @ ''-'' @ ToString (r ''congressional district''), r ''congressional district'')"
    by (simp add: parseDistrict_def fipsToState_def Let_def)
  show ?thesis
  proof (cases "getRegion (Abbrev s)")
    case (Inl e)
    with pd assms show ?thesis by (simp add: processRow_def)
  next
    case (Inr region)
    from processRow_resolved[OF pd Inr, of yr] assms Some show ?thesis by auto
  qed
qed

lemma processRow_distinct:
  assumes "processRow yr r = Inr cs"
  shows "distinct (map keyOf cs)"
proof -
  from processRow_InrD[OF assms] obtain s d region where
    cs: "cs = sexCells yr s d region (recodeRace r) (recodeEducation r) r ''Female'' @
              sexCells yr s d region (recodeRace r) (recodeEducation r) r ''Male''"
    by blast
  have "keyOf c \<noteq> keyOf c'"
    if "c \<in> set (sexCells yr s d region (recodeRace r) (recodeEducation r) r ''Female'')"
      and "c' \<in> set (sexCells yr s d region (recodeRace r) (recodeEducation r) r ''Male'')"
    for c c'
  proof -
    have "sex c = ''Female''" "sex c' = ''Male''"
      using that sexCells_fields by blast+
    then show ?thesis by (auto simp: keyOf_def)
  qed
  then have "keyOf ` set (sexCells yr s d region (recodeRace r) (recodeEducation r) r ''Female'') \<inter>
             keyOf ` set (sexCells yr s d region (recodeRace r) (recodeEducation r) r ''Male'') = {}"
    by blast
  then show ?thesis unfolding cs by (simp add: sexCells_distinct)
qed

lemma processRow_geography:
  assumes "processRow yr r = Inr cs" and "c \<in> set cs"
  shows "keyGeography (keyOf c) = rawGeography r"
proof -
  from processRow_InrD[OF assms(1)] obtain s region where
    s: "map_of FIPS_TO_STATE (ToString (r ''state'')) = Some s"
    and cs: "cs = sexCells yr s (s @ ''-'' @ ToString (r ''congressional district'')) region
                  (recodeRace r) (recodeEducation r) r ''Female'' @
                sexCells yr s (s @ ''-'' @ ToString (r ''congressional district'')) region
                  (recodeRace r) (recodeEducation r) r ''Male''"
    by blast
  have "state c = s \<and> cd c = s @ ''-'' @ ToString (r ''congressional district'')"
    using assms(2) sexCells_fields unfolding cs by fastforce
  then show ?thesis
    by (simp add: keyGeography_def keyOf_def rawGeography_def fipsOf_lookup[OF s])
qed

lemma tx33_fields:
  "tx33 ''state'' = Some (JStr ''48'')" "tx33 ''congressional district'' = Some (JStr ''33'')"
  by (simp_all add: tx33_def tx32_fields)

lemma getValue_tx33: "k \<noteq> ''congressional district'' \<Longrightarrow> getValue tx33 k = getValue tx32 k"
  by (simp add: getValue_def tx33_def)

lemma recodes_tx33:
  "recodeAge tx33 ''Male'' = recodeAge tx32 ''Male''"
  "recodeAge tx33 ''Female'' = recodeAge tx32 ''Female''"
  "recodeRace tx33 = recodeRace tx32"
  "recodeEducation tx33 = recodeEducation tx32"
  by (simp_all add: recodeAge_Male recodeAge_Female recodeRace_def recodeEducation_def
      getValue_tx33 Let_def)

lemma sexCells_tx33:
  "sexCells yr st d region (recodeRace tx32) (recodeEducation tx32) tx33 ''Male'' =
   sexCells yr st d region (recodeRace tx32) (recodeEducation tx32) tx32 ''Male''"
  "sexCells yr st d region (recodeRace tx32) (recodeEducation tx32) tx33 ''Female'' =
   sexCells yr st d region (recodeRace tx32) (recodeEducation tx32) tx32 ''Female''"
  by (simp_all add: sexCells_def recodes_tx33)

lemma parseDistrict_tx33: "parseDistrict tx33 = Inr (Abbrev ''TX'', ''TX-33'', Some (JStr ''33''))"
  by (simp add: parseDistrict_def fipsToState_def tx33_fields FIPS_TO_STATE_def)

lemma male_cells_tx33:
  "sexCells yr ''TX'' ''TX-33'' ''South'' (recodeRace tx32) (recodeEducation tx32) tx32 ''Male'' =
     [\<lparr>year = yr, state = ''TX'', cd = ''TX-33'', ageGroup = ''18-24'', sex = ''Male'',
       raceEth = ''White'', education = ''BA/BS'', censusRegion = ''South'',
       population = Fin 1000\<rparr>]"
  unfolding sexCells_def crossTabCell_def cellPopulation_def Let_def totals_tx32 strictEqZero_def
  unfolding recodeAge_tx32_Male recodeRace_tx32 recodeEducation_tx32
  by (simp add: fl_numeral fl_zero fl_one Math_round_numeral del: Math_round.simps)

lemma generateCells_two:
  "fst (generateCells 2023 [tx32, tx33]) =
     [\<lparr>year = 2023, state = ''TX'', cd = ''TX-32'', ageGroup = ''18-24'', sex = ''Male'',
       raceEth = ''White'', education = ''BA/BS'', censusRegion = ''South'',
       population = Fin 1000\<rparr>,
      \<lparr>year = 2023, state = ''TX'', cd = ''TX-33'', ageGroup = ''18-24'', sex = ''Male'',
       raceEth = ''White'', education = ''BA/BS'', censusRegion = ''South'',
       population = Fin 1000\<rparr>]"
  by (simp add: generateCells_eq processRow_resolved[OF parseDistrict_tx32 getRegion_TX]
      processRow_resolved[OF parseDistrict_tx33 getRegion_TX] recodes_tx33 sexCells_tx33
      female_cells_tx32 male_cells_tx32 male_cells_tx33)

text \<open>
  Claim C6. If the input holds at most one raw record per (state, congressional district)
  pair, the identity keys (year, state, cd, ageGroup, sex, raceEth, education, censusRegion)
  of the cells of one build are pairwise distinct: within a geography each combination of
  age group, sex, race and education is generated once, and the FIPS table maps no two codes
  to one abbreviation, so two geographies never share a (state, cd) pair.
\<close>

theorem cell_keys_distinct:
  assumes "distinct (map rawGeography censusData)"
  shows "distinct (map keyOf (fst (generateCells yr censusData)))"
  unfolding generateCells_eq fst_conv
proof (rule distinct_concat_tagged[where t = rawGeography and p = keyGeography])
  show "distinct (map rawGeography censusData)" by (rule assms)
next
  fix r
  show "distinct (map keyOf (case processRow yr r of Inl err \<Rightarrow> [] | Inr pushed \<Rightarrow> pushed))"
    by (cases "processRow yr r") (simp_all add: processRow_distinct)
next
  fix r c
  assume "c \<in> set (case processRow yr r of Inl err \<Rightarrow> [] | Inr pushed \<Rightarrow> pushed)"
  then show "keyGeography (keyOf c) = rawGeography r"
    by (cases "processRow yr r") (simp_all add: processRow_geography)
qed

theorem cell_keys_distinct_witness:
  "distinct (map rawGeography [tx32, tx33]) \<and>
   distinct (map keyOf (fst (generateCells 2023 [tx32, tx33]))) \<and>
   length (fst (generateCells 2023 [tx32, tx33])) = 2"
proof -
  have h: "distinct (map rawGeography [tx32, tx33])"
    by (simp add: rawGeography_def tx32_fields tx33_fields)
  from cell_keys_distinct[OF h, of 2023] h show ?thesis
    by (simp add: generateCells_two)
qed

section \<open>The recodes preserve the sum of their raw fields\<close>

lemma jadd_ints:
  assumes "\<bar>a + b\<bar> < 2 ^ 53"
  shows "jadd (Fin (of_int a)) (Fin (of_int b)) = Fin (of_int (a + b))"
  using fl_of_int[OF assms] by simp

lemma foldl_jadd_ints:
  "\<bar>a\<bar> + (\<Sum>n\<leftarrow>ns. \<bar>n\<bar>) < 2 ^ 53 \<Longrightarrow>
   foldl jadd (Fin (of_int a)) (map (\<lambda>n. Fin (of_int n)) ns) = Fin (of_int (a + sum_list ns))"
proof (induction ns arbitrary: a)
  case Nil
  show ?case by simp
next
  case (Cons n ns)
  have nonneg: "0 \<le> (\<Sum>n\<leftarrow>ns. \<bar>n\<bar>)" by (rule sum_list_nonneg) auto
  have total: "\<bar>a\<bar> + \<bar>n\<bar> + (\<Sum>n\<leftarrow>ns. \<bar>n\<bar>) < 2 ^ 53" using Cons.prems by simp
  have small: "\<bar>a + n\<bar> < 2 ^ 53" using total nonneg by linarith
  have step: "jadd (Fin (of_int a)) (Fin (of_int n)) = Fin (of_int (a + n))"
    by (rule jadd_ints[OF small])
  have "\<bar>a + n\<bar> + (\<Sum>n\<leftarrow>ns. \<bar>n\<bar>) < 2 ^ 53" using total by linarith
  from Cons.IH[OF this] show ?case
    unfolding list.map foldl_Cons step by (simp add: add.assoc)
qed

lemma isInt_map:
  assumes "\<forall>k\<in>set ks. isInt (g k)"
  shows "map g ks = map (\<lambda>n. Fin (of_int n)) (map (\<lambda>k. intOf (g k)) ks)"
  using assms by (induction ks) (auto simp: isInt_def)

lemma jsum_ints:
  assumes "ks \<noteq> []" and "\<forall>k\<in>set ks. isInt (g k)"
    and "(\<Sum>k\<leftarrow>ks. \<bar>intOf (g k)\<bar>) < 2 ^ 53"
  shows "jsum (map g ks) = Fin (of_int (\<Sum>k\<leftarrow>ks. intOf (g k)))"
proof -
  obtain k ks' where ks: "ks = k # ks'" using assms(1) by (cases ks) auto
  have hd: "g k = Fin (of_int (intOf (g k)))" using assms(2) by (simp add: ks isInt_def)
  have tl: "map g ks' = map (\<lambda>n. Fin (of_int n)) (map (\<lambda>k. intOf (g k)) ks')"
    using assms(2) by (intro isInt_map) (simp add: ks)
  have b: "\<bar>intOf (g k)\<bar> + (\<Sum>n\<leftarrow>map (\<lambda>k. intOf (g k)) ks'. \<bar>n\<bar>) < 2 ^ 53"
    using assms(3) by (simp add: ks comp_def)
  have "jsum (map g ks) = foldl jadd (Fin (of_int (intOf (g k)))) (map g ks')"
    using hd by (simp add: ks)
  also have "\<dots> = Fin (of_int (intOf (g k) + sum_list (map (\<lambda>k. intOf (g k)) ks')))"
    unfolding tl by (rule foldl_jadd_ints[OF b])
  finally show ?thesis by (simp add: ks)
qed

lemma bucket_sums:
  assumes "\<forall>b\<in>set bs. snd b \<noteq> []"
    and "\<forall>k\<in>set (concat (map snd bs)). isInt (g k)"
    and "\<bar>a\<bar> + (\<Sum>k\<leftarrow>concat (map snd bs). \<bar>intOf (g k)\<bar>) < 2 ^ 53"
  shows "foldl jadd (Fin (of_int a)) (map (\<lambda>b. jsum (map g (snd b))) bs) =
         Fin (of_int (a + (\<Sum>k\<leftarrow>concat (map snd bs). intOf (g k))))"
  using assms
proof (induction bs arbitrary: a)
  case Nil
  show ?case by simp
next
  case (Cons b bs)
  let ?s = "\<Sum>k\<leftarrow>snd b. intOf (g k)"
  have abs_s: "\<bar>?s\<bar> \<le> (\<Sum>k\<leftarrow>snd b. \<bar>intOf (g k)\<bar>)"
    using sum_list_abs[of "map (\<lambda>k. intOf (g k)) (snd b)"] by (simp add: comp_def)
  have nonneg: "0 \<le> (\<Sum>k\<leftarrow>concat (map snd bs). \<bar>intOf (g k)\<bar>)"
    by (rule sum_list_nonneg) auto
  have nonneg_b: "0 \<le> (\<Sum>k\<leftarrow>snd b. \<bar>intOf (g k)\<bar>)"
    by (rule sum_list_nonneg) auto
  have total: "\<bar>a\<bar> + (\<Sum>k\<leftarrow>snd b. \<bar>intOf (g k)\<bar>) + (\<Sum>k\<leftarrow>concat (map snd bs). \<bar>intOf (g k)\<bar>) < 2 ^ 53"
    using Cons.prems(3) by simp
  have js: "jsum (map g (snd b)) = Fin (of_int ?s)"
  proof (rule jsum_ints)
    show "snd b \<noteq> []" using Cons.prems(1) by simp
    show "\<forall>k\<in>set (snd b). isInt (g k)" using Cons.prems(2) by simp
    show "(\<Sum>k\<leftarrow>snd b. \<bar>intOf (g k)\<bar>) < 2 ^ 53" using total nonneg by linarith
  qed
  have small: "\<bar>a + ?s\<bar> < 2 ^ 53" using total nonneg abs_s by linarith
  have "foldl jadd (Fin (of_int (a + ?s))) (map (\<lambda>b. jsum (map g (snd b))) bs) =
        Fin (of_int (a + ?s + (\<Sum>k\<leftarrow>concat (map snd bs). intOf (g k))))"
  proof (rule Cons.IH)
    show "\<forall>b\<in>set bs. snd b \<noteq> []" using Cons.prems(1) by simp
    show "\<forall>k\<in>set (concat (map snd bs)). isInt (g k)" using Cons.prems(2) by simp
    show "\<bar>a + ?s\<bar> + (\<Sum>k\<leftarrow>concat (map snd bs). \<bar>intOf (g k)\<bar>) < 2 ^ 53"
      using total abs_s by linarith
  qed
  moreover have step: "jadd (Fin (of_int a)) (Fin (of_int ?s)) = Fin (of_int (a + ?s))"
    by (rule jadd_ints[OF small])
  ultimately show ?case
    unfolding list.map foldl_Cons js step by (simp add: add.assoc)
qed

lemma recodeAge_buckets:
  "recodeAge r sx = map (\<lambda>b. (fst b, jsum (map (getValue r) (snd b)))) (ageBuckets sx)"
proof (cases "sx = ''Male''")
  case True
  then show ?thesis by (simp add: recodeAge_Male ageBuckets_def)
next
  case False
  then have "recodeAge r sx = recodeAge r ''Female''" by (simp add: recodeAge_def)
  with False show ?thesis by (simp add: recodeAge_Female ageBuckets_def)
qed

lemma ageBuckets_fields:
  "concat (map snd (ageBuckets sx)) = ageFields sx" "\<forall>b\<in>set (ageBuckets sx). snd b \<noteq> []"
  by (simp_all add: ageBuckets_def ageFields_def maleAgeFields_def femaleAgeFields_def)

lemma ageFields_distinct: "distinct (ageFields sx) \<and> length (ageFields sx) = 19"
  by (simp add: ageFields_def maleAgeFields_def femaleAgeFields_def)

lemma isInt_numeral: "isInt (Fin 0)" "isInt (Fin (numeral n))"
  by (simp_all add: isInt_def intOf_def)

lemma intOf_numeral: "intOf (Fin 0) = 0" "intOf (Fin (numeral n)) = numeral n"
  by (simp_all add: intOf_def)

text \<open>
  Claim C7. The six values of \<open>recodeAge\<close> for a sex add up to the sum of the 19 raw age
  fields of that sex (\<open>B01001_007E\<close> to \<open>B01001_025E\<close> for Male, \<open>B01001_031E\<close> to
  \<open>B01001_049E\<close> for Female), and every raw field goes into exactly one age group. The sum
  is the exact one as long as the fields are integers whose absolute values add up to less
  than \<open>2 ^ 53\<close>, the range in which a Number adds integers without rounding.
\<close>

theorem recodeAge_sums_fields:
  assumes "\<forall>k\<in>set (ageFields sx). isInt (getValue r k)"
    and "(\<Sum>k\<leftarrow>ageFields sx. \<bar>intOf (getValue r k)\<bar>) < 2 ^ 53"
  shows "sumValues (recodeAge r sx) = Fin (of_int (\<Sum>k\<leftarrow>ageFields sx. intOf (getValue r k))) \<and>
         recodeAge r sx = map (\<lambda>b. (fst b, jsum (map (getValue r) (snd b)))) (ageBuckets sx) \<and>
         concat (map snd (ageBuckets sx)) = ageFields sx \<and>
         distinct (ageFields sx) \<and> length (ageFields sx) = 19"
proof -
  have "sumValues (recodeAge r sx) =
        foldl jadd (Fin (of_int 0)) (map (\<lambda>b. jsum (map (getValue r) (snd b))) (ageBuckets sx))"
    by (simp add: sumValues_def recodeAge_buckets comp_def)
  also have "\<dots> = Fin (of_int (0 + (\<Sum>k\<leftarrow>concat (map snd (ageBuckets sx)). intOf (getValue r k))))"
    by (rule bucket_sums) (use assms in \<open>simp_all add: ageBuckets_fields\<close>)
  finally have "sumValues (recodeAge r sx) = Fin (of_int (\<Sum>k\<leftarrow>ageFields sx. intOf (getValue r k)))"
    by (simp add: ageBuckets_fields)
  then show ?thesis
    using recodeAge_buckets ageBuckets_fields(1) ageFields_distinct by blast
qed

theorem recodeAge_sums_fields_witness:
  "list_all (\<lambda>k. isInt (getValue tx32 k)) (ageFields ''Male'') \<and>
   (\<Sum>k\<leftarrow>ageFields ''Male''. \<bar>intOf (getValue tx32 k)\<bar>) = 1000 \<and>
   sumValues (recodeAge tx32 ''Male'') = Fin 1000 \<and>
   map fst (recodeAge tx32 ''Male'') = map fst (ageBuckets ''Male'')"
proof -
  have h1: "\<forall>k\<in>set (ageFields ''Male''). isInt (getValue tx32 k)"
    by (simp add: ageFields_def maleAgeFields_def getValue_tx32 isInt_numeral)
  have s: "(\<Sum>k\<leftarrow>ageFields ''Male''. \<bar>intOf (getValue tx32 k)\<bar>) = 1000"
    by (simp add: ageFields_def maleAgeFields_def getValue_tx32 intOf_numeral)
  have s': "(\<Sum>k\<leftarrow>ageFields ''Male''. intOf (getValue tx32 k)) = 1000"
    by (simp add: ageFields_def maleAgeFields_def getValue_tx32 intOf_numeral)
  have h2: "(\<Sum>k\<leftarrow>ageFields ''Male''. \<bar>intOf (getValue tx32 k)\<bar>) < 2 ^ 53"
    unfolding s by simp
  note th = recodeAge_sums_fields[OF h1 h2]
  have a: "sumValues (recodeAge tx32 ''Male'') = Fin 1000"
    using th[THEN conjunct1] unfolding s' by simp
  have "recodeAge tx32 ''Male'' =
        map (\<lambda>b. (fst b, jsum (map (getValue tx32) (snd b)))) (ageBuckets ''Male'')"
    using th by (rule conjunct2[THEN conjunct1])
  then have b: "map fst (recodeAge tx32 ''Male'') = map fst (ageBuckets ''Male'')"
    by (simp add: comp_def)
  have c: "list_all (\<lambda>k. isInt (getValue tx32 k)) (ageFields ''Male'')"
    using h1 by (simp add: list_all_iff)
  show ?thesis by (intro conjI c s a b)
qed

lemma recodeEducation_buckets:
  "recodeEducation r = map (\<lambda>b. (fst b, jsum (map (getValue r) (snd b)))) educationBuckets"
  by (simp add: recodeEducation_def educationBuckets_def Let_def)

lemma educationBuckets_fields:
  "concat (map snd educationBuckets) = educationFields" "\<forall>b\<in>set educationBuckets. snd b \<noteq> []"
  by (simp_all add: educationBuckets_def educationFields_def)

lemma educationFields_distinct: "distinct educationFields \<and> length educationFields = 24"
  by (simp add: educationFields_def)

text \<open>
  Claim C9. The five values of \<open>recodeEducation\<close> add up to the sum of the 24 raw
  attainment fields \<open>B15003_002E\<close> to \<open>B15003_025E\<close>, and every raw field goes into exactly
  one education label; the sum is exact in the same range as for the ages.
\<close>

theorem recodeEducation_sums_fields:
  assumes "\<forall>k\<in>set educationFields. isInt (getValue r k)"
    and "(\<Sum>k\<leftarrow>educationFields. \<bar>intOf (getValue r k)\<bar>) < 2 ^ 53"
  shows "sumValues (recodeEducation r) = Fin (of_int (\<Sum>k\<leftarrow>educationFields. intOf (getValue r k))) \<and>
         recodeEducation r = map (\<lambda>b. (fst b, jsum (map (getValue r) (snd b)))) educationBuckets \<and>
         concat (map snd educationBuckets) = educationFields \<and>
         distinct educationFields \<and> length educationFields = 24"
proof -
  have "sumValues (recodeEducation r) =
        foldl jadd (Fin (of_int 0)) (map (\<lambda>b. jsum (map (getValue r) (snd b))) educationBuckets)"
    by (simp add: sumValues_def recodeEducation_buckets comp_def)
  also have "\<dots> = Fin (of_int (0 + (\<Sum>k\<leftarrow>concat (map snd educationBuckets). intOf (getValue r k))))"
    by (rule bucket_sums) (use assms in \<open>simp_all add: educationBuckets_fields\<close>)
  finally have "sumValues (recodeEducation r) =
                Fin (of_int (\<Sum>k\<leftarrow>educationFields. intOf (getValue r k)))"
    by (simp add: educationBuckets_fields)
  then show ?thesis
    using recodeEducation_buckets educationBuckets_fields(1) educationFields_distinct by blast
qed

theorem recodeEducation_sums_fields_witness:
  "list_all (\<lambda>k. isInt (getValue tx32 k)) educationFields \<and>
   (\<Sum>k\<leftarrow>educationFields. \<bar>intOf (getValue tx32 k)\<bar>) = 1500 \<and>
   sumValues (recodeEducation tx32) = Fin 1500 \<and>
   map fst (recodeEducation tx32) = map fst educationBuckets"
proof -
  have h1: "\<forall>k\<in>set educationFields. isInt (getValue tx32 k)"
    by (simp add: educationFields_def getValue_tx32 isInt_numeral)
  have s: "(\<Sum>k\<leftarrow>educationFields. \<bar>intOf (getValue tx32 k)\<bar>) = 1500"
    by (simp add: educationFields_def getValue_tx32 intOf_numeral)
  have s': "(\<Sum>k\<leftarrow>educationFields. intOf (getValue tx32 k)) = 1500"
    by (simp add: educationFields_def getValue_tx32 intOf_numeral)
  have h2: "(\<Sum>k\<leftarrow>educationFields. \<bar>intOf (getValue tx32 k)\<bar>) < 2 ^ 53"
    unfolding s by simp
  note th = recodeEducation_sums_fields[OF h1 h2]
  have a: "sumValues (recodeEducation tx32) = Fin 1500"
    using th[THEN conjunct1] unfolding s' by simp
  have "recodeEducation tx32 =
        map (\<lambda>b. (fst b, jsum (map (getValue tx32) (snd b)))) educationBuckets"
    using th by (rule conjunct2[THEN conjunct1])
  then have b: "map fst (recodeEducation tx32) = map fst educationBuckets"
    by (simp add: comp_def)
  have c: "list_all (\<lambda>k. isInt (getValue tx32 k)) educationFields"
    using h1 by (simp add: list_all_iff)
  show ?thesis by (intro conjI c s a b)
qed

section \<open>The cell population\<close>

lemma filter_sexCells:
  "filter (\<lambda>c. sex c = sx') (sexCells yr st d region rcs es r sx) =
     (if sx' = sx then sexCells yr st d region rcs es r sx else [])"
proof (cases "sx' = sx")
  case True
  have "\<forall>c\<in>set (sexCells yr st d region rcs es r sx). sex c = sx"
    using sexCells_fields by blast
  with True show ?thesis by (simp add: filter_id_conv)
next
  case False
  have "\<forall>c\<in>set (sexCells yr st d region rcs es r sx). sex c \<noteq> sx'"
    using sexCells_fields False by blast
  with False show ?thesis by (simp add: filter_empty_conv)
qed

lemma unresolved_geography_no_cells:
  assumes "geographyError r = Some e"
  shows "generateCells yr [r] = ([], 1)"
proof -
  have "processRow yr r = Inl e" using assms by (simp add: processRow_Inl_iff)
  then show ?thesis by (simp add: generateCells_def)
qed

text \<open>
  Claim C1. For a raw record whose geography resolves and a sex whose three marginal totals
  are all different from zero, the builder emits a cell for a combination of age group, race
  and education exactly when the rounded product \<open>round(totalAge \<times> (ageCount/totalAge) \<times>
  (raceCount/totalRace) \<times> (eduCount/totalEdu))\<close> is strictly positive, and the population
  of the cell is that rounded value, the rounding sending a half away from zero: the cells
  of that sex among the cells the record's processing pushes, which are all the cells of a
  build on that record alone, are the combinations of the cross product with a positive
  rounded product, each once and in the order of the loops. The builder rounds with
  \<open>Math.round\<close>, which sends a half upwards: the two agree on every positive result, and
  neither is positive where they differ. A record whose geography does not resolve is
  skipped before any count is read and yields no cell (\<open>unresolved_geography_no_cells\<close>).
\<close>

theorem cell_population_formula:
  assumes "parseDistrict r = Inr (st, district, n)"
    and "getRegion st = Inr region"
    and "sx = ''Female'' \<or> sx = ''Male''"
    and "\<not> strictEqZero (sumValues (recodeAge r sx))"
    and "\<not> strictEqZero (sumValues (recodeRace r))"
    and "\<not> strictEqZero (sumValues (recodeEducation r))"
  shows
    "processRow yr r =
       Inr (sexCells yr (stateText st) district region (recodeRace r) (recodeEducation r) r ''Female'' @
            sexCells yr (stateText st) district region (recodeRace r) (recodeEducation r) r ''Male'') \<and>
     generateCells yr [r] =
       (sexCells yr (stateText st) district region (recodeRace r) (recodeEducation r) r ''Female'' @
        sexCells yr (stateText st) district region (recodeRace r) (recodeEducation r) r ''Male'', 0) \<and>
     filter (\<lambda>c. sex c = sx) (fst (generateCells yr [r])) =
       [\<lparr>year = yr, state = stateText st, cd = district, ageGroup = fst a, sex = sx,
         raceEth = fst rc, education = fst e, censusRegion = region,
         population = spec_population (sumValues (recodeAge r sx)) (snd a)
                        (sumValues (recodeRace r)) (snd rc) (sumValues (recodeEducation r)) (snd e)\<rparr>.
        a \<leftarrow> recodeAge r sx, rc \<leftarrow> recodeRace r, e \<leftarrow> recodeEducation r,
        jgt (spec_population (sumValues (recodeAge r sx)) (snd a)
               (sumValues (recodeRace r)) (snd rc) (sumValues (recodeEducation r)) (snd e)) (Fin 0)]"
proof -
  let ?F = "sexCells yr (stateText st) district region (recodeRace r) (recodeEducation r) r ''Female''"
  let ?M = "sexCells yr (stateText st) district region (recodeRace r) (recodeEducation r) r ''Male''"
  have p: "processRow yr r = Inr (?F @ ?M)"
    using assms(1,2) by (rule processRow_resolved)
  have g: "generateCells yr [r] = (?F @ ?M, 0)"
    by (simp add: generateCells_def p)
  have "filter (\<lambda>c. sex c = sx) (?F @ ?M) =
        sexCells yr (stateText st) district region (recodeRace r) (recodeEducation r) r sx"
    using assms(3) by (auto simp: filter_sexCells)
  then have f: "filter (\<lambda>c. sex c = sx) (fst (generateCells yr [r])) =
        sexCells yr (stateText st) district region (recodeRace r) (recodeEducation r) r sx"
    by (simp only: g fst_conv)
  show ?thesis
    unfolding f sexCells_spec_formula[OF assms(4,5,6)] using p g by (simp only: simp_thms)
qed

theorem cell_population_formula_witness:
  "parseDistrict tx32 = Inr (Abbrev ''TX'', ''TX-32'', Some (JStr ''32'')) \<and>
   getRegion (Abbrev ''TX'') = Inr ''South'' \<and>
   \<not> strictEqZero (sumValues (recodeAge tx32 ''Male'')) \<and>
   \<not> strictEqZero (sumValues (recodeRace tx32)) \<and>
   \<not> strictEqZero (sumValues (recodeEducation tx32)) \<and>
   generateCells 2023 [tx32] =
     ([\<lparr>year = 2023, state = ''TX'', cd = ''TX-32'', ageGroup = ''18-24'', sex = ''Male'',
        raceEth = ''White'', education = ''BA/BS'', censusRegion = ''South'',
        population = Fin 1000\<rparr>], 0) \<and>
   [\<lparr>year = 2023, state = ''TX'', cd = ''TX-32'', ageGroup = fst a, sex = ''Male'',
      raceEth = fst rc, education = fst e, censusRegion = ''South'',
      population = spec_population (sumValues (recodeAge tx32 ''Male'')) (snd a)
                     (sumValues (recodeRace tx32)) (snd rc)
                     (sumValues (recodeEducation tx32)) (snd e)\<rparr>.
     a \<leftarrow> recodeAge tx32 ''Male'', rc \<leftarrow> recodeRace tx32, e \<leftarrow> recodeEducation tx32,
     jgt (spec_population (sumValues (recodeAge tx32 ''Male'')) (snd a)
            (sumValues (recodeRace tx32)) (snd rc)
            (sumValues (recodeEducation tx32)) (snd e)) (Fin 0)] =
   [\<lparr>year = 2023, state = ''TX'', cd = ''TX-32'', ageGroup = ''18-24'', sex = ''Male'',
      raceEth = ''White'', education = ''BA/BS'', censusRegion = ''South'',
      population = Fin 1000\<rparr>]"
proof -
  have h1: "\<not> strictEqZero (sumValues (recodeAge tx32 ''Male''))"
    and h2: "\<not> strictEqZero (sumValues (recodeRace tx32))"
    and h3: "\<not> strictEqZero (sumValues (recodeEducation tx32))"
    by (simp_all add: totals_tx32 strictEqZero_def)
  have sx: "''Male'' = ''Female'' \<or> ''Male'' = ''Male''" by simp
  have st: "stateText (Abbrev ''TX'') = ''TX''" by simp
  note th = cell_population_formula[OF parseDistrict_tx32 getRegion_TX sx h1 h2 h3, of 2023,
      unfolded st]
  have g: "generateCells 2023 [tx32] =
     ([\<lparr>year = 2023, state = ''TX'', cd = ''TX-32'', ageGroup = ''18-24'', sex = ''Male'',
        raceEth = ''White'', education = ''BA/BS'', censusRegion = ''South'',
        population = Fin 1000\<rparr>], 0)"
    using th[THEN conjunct2, THEN conjunct1]
    by (simp only: female_cells_tx32 male_cells_tx32 append_Nil)
  have f: "filter (\<lambda>c. sex c = ''Male'') (fst (generateCells 2023 [tx32])) =
     [\<lparr>year = 2023, state = ''TX'', cd = ''TX-32'', ageGroup = ''18-24'', sex = ''Male'',
        raceEth = ''White'', education = ''BA/BS'', censusRegion = ''South'',
        population = Fin 1000\<rparr>]"
    unfolding g by simp
  have c': "[\<lparr>year = 2023, state = ''TX'', cd = ''TX-32'', ageGroup = fst a, sex = ''Male'',
      raceEth = fst rc, education = fst e, censusRegion = ''South'',
      population = spec_population (sumValues (recodeAge tx32 ''Male'')) (snd a)
                     (sumValues (recodeRace tx32)) (snd rc)
                     (sumValues (recodeEducation tx32)) (snd e)\<rparr>.
     a \<leftarrow> recodeAge tx32 ''Male'', rc \<leftarrow> recodeRace tx32, e \<leftarrow> recodeEducation tx32,
     jgt (spec_population (sumValues (recodeAge tx32 ''Male'')) (snd a)
            (sumValues (recodeRace tx32)) (snd rc)
            (sumValues (recodeEducation tx32)) (snd e)) (Fin 0)] =
     [\<lparr>year = 2023, state = ''TX'', cd = ''TX-32'', ageGroup = ''18-24'', sex = ''Male'',
        raceEth = ''White'', education = ''BA/BS'', censusRegion = ''South'',
        population = Fin 1000\<rparr>]"
    using th[THEN conjunct2, THEN conjunct2, symmetric] f by (rule trans)
  show ?thesis by (intro conjI parseDistrict_tx32 getRegion_TX h1 h2 h3 g c')
qed

end
